theory Spec2Isabelle
  imports Main
begin

section \<open>Strings and the regular expressions of the parser\<close>

text \<open>
  A JavaScript string is modelled as a \<^typ>\<open>string\<close>: a list of code units, here
  the code units below 256. On these the class \<^verbatim>\<open>\s\<close> (and the characters removed
  by \<^verbatim>\<open>trim\<close>) is tab, line feed, vertical tab, form feed, carriage return, space
  and no-break space; \<^verbatim>\<open>\w\<close> is the ASCII letters, the digits and the underscore.
\<close>

abbreviation CR :: char where "CR \<equiv> CHR 0x0D"
abbreviation LF :: char where "LF \<equiv> CHR 0x0A"

definition CRLF :: string where
  "CRLF = [CR, LF]"

definition isSpace :: "char \<Rightarrow> bool" where
  "isSpace c = (c = CHR 0x09 \<or> c = LF \<or> c = CHR 0x0B \<or> c = CHR 0x0C \<or> c = CR
     \<or> c = CHR 0x20 \<or> c = CHR 0xA0)"

definition isDigit :: "char \<Rightarrow> bool" where
  "isDigit c = (let n = (of_char c :: nat) in 48 \<le> n \<and> n \<le> 57)"

definition isWord :: "char \<Rightarrow> bool" where
  "isWord c = (let n = (of_char c :: nat) in
     (48 \<le> n \<and> n \<le> 57) \<or> (65 \<le> n \<and> n \<le> 90) \<or> (97 \<le> n \<and> n \<le> 122) \<or> n = 95)"

text \<open>The class \<^verbatim>\<open>[\w\d\-]\<close> of header names.\<close>

definition isNameChar :: "char \<Rightarrow> bool" where
  "isNameChar c = (isWord c \<or> c = CHR ''-'')"

text \<open>The class \<^verbatim>\<open>[^\r\n]\<close>.\<close>

definition notCRLF :: "char \<Rightarrow> bool" where
  "notCRLF c = (c \<noteq> CR \<and> c \<noteq> LF)"

text \<open>\<^verbatim>\<open>s.indexOf(p) === 0\<close> and \<^verbatim>\<open>s.indexOf(p) >= 0\<close> on strings.\<close>

definition startsWith :: "'a list \<Rightarrow> 'a list \<Rightarrow> bool" where
  "startsWith p s = (take (length p) s = p)"

fun contains :: "'a list \<Rightarrow> 'a list \<Rightarrow> bool" where
  "contains p [] = (p = [])"
| "contains p (c # cs) = (startsWith p (c # cs) \<or> contains p cs)"

text \<open>\<^verbatim>\<open>eml.split(/\r?\n/)\<close>: the lines of a text, broken at LF or CR LF.\<close>

fun splitLines :: "string \<Rightarrow> string list" where
  "splitLines [] = [[]]"
| "splitLines [c] = (if c = LF then [[], []] else [[c]])"
| "splitLines (c # d # cs) =
     (if c = LF then [] # splitLines (d # cs)
      else if c = CR \<and> d = LF then [] # splitLines cs
      else (case splitLines (d # cs) of [] \<Rightarrow> [[c]] | l # ls \<Rightarrow> (c # l) # ls))"

text \<open>\<^verbatim>\<open>xs.join(sep)\<close>.\<close>

fun joinWith :: "string \<Rightarrow> string list \<Rightarrow> string" where
  "joinWith sep [] = []"
| "joinWith sep [l] = l"
| "joinWith sep (l # m # ls) = l @ sep @ joinWith sep (m # ls)"

definition trim :: "string \<Rightarrow> string" where
  "trim s = rev (dropWhile isSpace (rev (dropWhile isSpace s)))"

text \<open>
  \<^verbatim>\<open>/^\s+([^\r\n]+)/\<close>, the continuation line of a folded header; the result is group 1.
  The greedy \<^verbatim>\<open>\s+\<close> first takes all \<open>k\<close> leading blanks and gives them back one
  at a time until the character after it can start the group.
\<close>

definition reCont :: "string \<Rightarrow> string option" where
  "reCont line =
     (let k = length (takeWhile isSpace line);
          js = filter (\<lambda>j. j < length line \<and> notCRLF (line ! j)) (rev [1..<Suc k])
      in case js of [] \<Rightarrow> None | j # _ \<Rightarrow> Some (takeWhile notCRLF (drop j line)))"

text \<open>\<^verbatim>\<open>/^([\w\d\-]+):\s*([^\r\n]*)/gi\<close>, a header line; the result is groups 1 and 2.\<close>

definition reHeader :: "string \<Rightarrow> (string \<times> string) option" where
  "reHeader line =
     (let n = takeWhile isNameChar line; r = drop (length n) line
      in if n \<noteq> [] \<and> startsWith '':'' r
         then Some (n, takeWhile notCRLF (dropWhile isSpace (tl r)))
         else None)"

text \<open>\<^verbatim>\<open>/^\-\-([^\r\n]+)(\r?\n)?$/g\<close>, a boundary marker line; the result is group 1.\<close>

definition reBoundary :: "string \<Rightarrow> string option" where
  "reBoundary line =
     (if startsWith ''--'' line
      then (let r = drop 2 line; g = takeWhile notCRLF r; t = drop (length g) r
            in if g \<noteq> [] \<and> (t = [] \<or> t = [LF] \<or> t = [CR, LF]) then Some g else None)
      else None)"

section \<open>The data model\<close>

text \<open>
  A header value is a string, or the list of the values when the name repeats. A header
  map is a JavaScript object, kept as the association list of its own properties in the
  order the runtime lists them: the keys that are array indices (the canonical decimal
  numerals below \<open>2\<^sup>3\<^sup>2 - 1\<close>) in ascending order, then the other keys in the order of their
  creation. An assignment replaces the value of an existing key where it stands.
\<close>

datatype hval = Str string | Lst "string list"

type_synonym hmap = "(string \<times> hval) list"

definition hget :: "hmap \<Rightarrow> string \<Rightarrow> hval option" where
  "hget h k = map_of h k"

definition decimal :: "string \<Rightarrow> nat" where
  "decimal ds = foldl (\<lambda>n c. 10 * n + (of_char c - 48)) 0 ds"

definition isArrayIndex :: "string \<Rightarrow> bool" where
  "isArrayIndex k =
     (k \<noteq> [] \<and> list_all isDigit k \<and> (k = ''0'' \<or> hd k \<noteq> CHR ''0'')
      \<and> decimal k < 4294967295)"

fun hreplace :: "hmap \<Rightarrow> string \<Rightarrow> hval \<Rightarrow> hmap" where
  "hreplace [] k v = []"
| "hreplace ((k', v') # h) k v = (if k' = k then (k, v) # h else (k', v') # hreplace h k v)"

fun hcreate :: "hmap \<Rightarrow> string \<Rightarrow> hval \<Rightarrow> hmap" where
  "hcreate [] k v = [(k, v)]"
| "hcreate ((k', v') # h) k v =
     (if isArrayIndex k \<and> (\<not> isArrayIndex k' \<or> decimal k < decimal k')
      then (k, v) # (k', v') # h
      else (k', v') # hcreate h k v)"

definition hset :: "hmap \<Rightarrow> string \<Rightarrow> hval \<Rightarrow> hmap" where
  "hset h k v = (case hget h k of None \<Rightarrow> hcreate h k v | Some u \<Rightarrow> hreplace h k v)"

text \<open>Truthiness of a looked-up value: \<^verbatim>\<open>undefined\<close> and the empty string are falsy.\<close>

fun truthy :: "hval option \<Rightarrow> bool" where
  "truthy None = False"
| "truthy (Some (Str s)) = (s \<noteq> [])"
| "truthy (Some (Lst xs)) = True"

text \<open>\<^verbatim>\<open>a || b\<close>.\<close>

definition jsOr :: "hval option \<Rightarrow> hval option \<Rightarrow> hval option" where
  "jsOr a b = (if truthy a then a else b)"

text \<open>The string a value turns into where a string is expected: a list joins with commas.\<close>

fun toStr :: "hval \<Rightarrow> string" where
  "toStr (Str s) = s"
| "toStr (Lst xs) = joinWith '','' xs"

text \<open>
  The part tree. An element of a multipart body is a boundary record: \<open>Raw\<close> while it
  holds the lines collected for it (\<^verbatim>\<open>{boundary, lines}\<close>), \<open>Resolved\<close> once the lines
  are parsed (\<^verbatim>\<open>{boundary, part}\<close>). The reader also accepts trees built by hand, where
  a boundary's part may be a string (\<open>StrPart\<close>) and a body list may hold strings
  (\<open>StrElem\<close>).
\<close>

datatype part = Part (headers: hmap) (body: pbody)
and pbody = Unset | Solid string | Multi "belem list"
and belem = Raw string "string list" | Resolved string part
  | StrPart string string | StrElem string

text \<open>
  Values thrown or returned as errors: \<^verbatim>\<open>new Error(msg)\<close>, a \<^verbatim>\<open>TypeError\<close> or
  \<^verbatim>\<open>URIError\<close> of the runtime, an error of a collaborator, and a plain string used as
  an error value.
\<close>

datatype js_error = Error string | TypeError | URIError | ExtError string | Message string

datatype options = Options (headersOnly: bool)

text \<open>
  The names every object inherits from \<^verbatim>\<open>Object.prototype\<close>: reading one of them from
  the header map, which is created as \<^verbatim>\<open>{}\<close>, yields a function (an object for
  \<^verbatim>\<open>__proto__\<close>) and not \<^verbatim>\<open>undefined\<close>.
\<close>

definition objectProtoKeys :: "string list" where
  "objectProtoKeys = [''constructor'', ''__defineGetter__'', ''__defineSetter__'',
     ''hasOwnProperty'', ''__lookupGetter__'', ''__lookupSetter__'', ''isPrototypeOf'',
     ''propertyIsEnumerable'', ''toString'', ''valueOf'', ''__proto__'', ''toLocaleString'']"

text \<open>
  An address as \<^verbatim>\<open>getEmailAddress\<close> returns it: \<^verbatim>\<open>null\<close>, one record, or the list of
  the records.
\<close>

datatype address = NoAddress | OneAddress "string \<times> string" | Addresses "(string \<times> string) list"

text \<open>
  A number as \<^verbatim>\<open>parseInt\<close> returns it for a run of decimal digits: a double holding a
  natural number, or a value the language leaves to the engine (\<open>EngineDefined\<close>).
\<close>

datatype jsnum = Num nat | EngineDefined

text \<open>
  An attachment record and the result of \<^verbatim>\<open>read\<close>. A field that is not set is \<open>None\<close>;
  field \<^verbatim>\<open>x\<close> of the source is \<open>ax\<close> or \<open>rx\<close> here. The date is kept as the header value
  the \<^verbatim>\<open>Date\<close> object is constructed from.
\<close>

record attachment =
  aname :: "string option"
  acontentType :: "hval option"
  acontentId :: "string option"
  ainline :: "bool option"
  asize :: "jsnum option"

record read_result =
  rdate :: "hval option"
  rsubject :: "string option"
  rfrom :: "address option"
  rto :: "address option"
  rcc :: "address option"
  rheaders :: "hmap option"
  rtext :: "string option"
  rhtml :: "string option"
  rtextheaders :: "(hval \<times> hval) option"
  rhtmlheaders :: "(hval \<times> hval) option"
  rattachments :: "attachment list option"
  rmultipartAlternative :: "hval option"
  rdata :: "string option"

text \<open>
  The arguments of the public functions. The first argument is a text, a part tree,
  an object without \<^verbatim>\<open>headers\<close>, \<^verbatim>\<open>null\<close> or something else. A callback is a function of
  the caller's: it is given an error (or \<^verbatim>\<open>undefined\<close>) and a value, and either returns
  (\<open>None\<close>) or throws. The value is \<open>Incomplete\<close> for the object \<^verbatim>\<open>parse\<close> was still
  filling when it failed. The second argument may be an options object, \<^verbatim>\<open>null\<close>, a
  callback, or missing.
\<close>

datatype eml_arg = EmlText string | EmlTree part | EmlNoHeaders | EmlNull | EmlOther

datatype cb_value = Undefined | Incomplete | Parsed part | Readed read_result

type_synonym callback = "js_error option \<Rightarrow> cb_value \<Rightarrow> js_error option"

datatype opt_arg = OptUndefined | OptNull | OptObj options | OptFn callback | OptOther

text \<open>
  What a call of a public function does: the calls it makes to the functions it was
  given, in order, each with the argument position of the function called, and then
  either a returned value or an error raised to the caller.
\<close>

datatype slot = OptionsArg | CallbackArg

type_synonym call = "slot \<times> js_error option \<times> cb_value"

datatype 'a outcome = Returned 'a | Raised js_error

section \<open>parseRecursive\<close>

text \<open>
  The local variables of \<^verbatim>\<open>parseRecursive\<close> and the two fields of \<^verbatim>\<open>parent\<close>. The
  variable \<^verbatim>\<open>boundary\<close> always refers to the record pushed last onto \<^verbatim>\<open>parent.body\<close>
  (it is assigned only where that record is pushed), so it is read as the last element
  of \<open>pbody\<close>, and is \<^verbatim>\<open>null\<close> while that list is empty.
\<close>

record pstate =
  pheaders :: hmap
  pbody :: pbody
  lastHeaderName :: string
  findBoundary :: string
  insideBody :: bool
  insideBoundary :: bool
  isMultiHeader :: bool
  isMultipart :: bool
  checkedForCt :: bool
  ctInBody :: bool

definition initState :: pstate where
  "initState = \<lparr>pheaders = [], pbody = Unset, lastHeaderName = [], findBoundary = [],
     insideBody = False, insideBoundary = False, isMultiHeader = False, isMultipart = False,
     checkedForCt = False, ctInBody = False\<rparr>"

text \<open>What one pass through the loop body does: go on, leave the loop, or throw.\<close>

datatype 's ctl = Continue 's | Break 's | Throw js_error

definition curBoundary :: "pstate \<Rightarrow> belem option" where
  "curBoundary st = (case pbody st of Multi es \<Rightarrow> (if es = [] then None else Some (last es))
     | _ \<Rightarrow> None)"

text \<open>
  \<^verbatim>\<open>complete(boundary)\<close> on the current boundary: its lines are parsed by \<open>c\<close> (the
  recursive call) into its part, and the lines are deleted. A record without lines
  makes the recursive call read \<^verbatim>\<open>undefined.length\<close>.
\<close>

definition complete :: "(string list \<Rightarrow> js_error + part) \<Rightarrow> pstate \<Rightarrow> js_error + pstate" where
  "complete c st =
     (case pbody st of
        Multi es \<Rightarrow>
          (if es = [] then Inl TypeError
           else (case last es of
                   Raw d ls \<Rightarrow>
                     (case c ls of
                        Inl e \<Rightarrow> Inl e
                      | Inr p \<Rightarrow> Inr (st\<lparr>pbody := Multi (butlast es @ [Resolved d p])\<rparr>))
                 | _ \<Rightarrow> Inl TypeError))
      | _ \<Rightarrow> Inl TypeError)"

text \<open>\<^verbatim>\<open>boundary && boundary.lines\<close>, and \<^verbatim>\<open>boundary?.boundary\<close>.\<close>

definition hasLines :: "pstate \<Rightarrow> bool" where
  "hasLines st = (case curBoundary st of Some (Raw d ls) \<Rightarrow> True | _ \<Rightarrow> False)"

definition hasDelimiter :: "pstate \<Rightarrow> bool" where
  "hasDelimiter st = (case curBoundary st of
       Some (Raw d ls) \<Rightarrow> d \<noteq> [] | Some (Resolved d p) \<Rightarrow> d \<noteq> []
     | Some (StrPart d s) \<Rightarrow> d \<noteq> [] | _ \<Rightarrow> False)"

text \<open>The blank line that ends the header section (source lines 279 to 317).\<close>

definition blankLine :: "(hval option \<Rightarrow> string option) \<Rightarrow> options option \<Rightarrow> string list
    \<Rightarrow> pstate \<Rightarrow> pstate ctl" where
  "blankLine getBoundary opts fromHere st0 =
     (let st = st0\<lparr>insideBody := True\<rparr>
      in if (case opts of None \<Rightarrow> False | Some o' \<Rightarrow> headersOnly o') then Break st
         else
           (let ct = jsOr (hget (pheaders st) ''Content-Type'') (hget (pheaders st) ''Content-type'')
            in if \<not> truthy ct then
                 (if checkedForCt st then Continue (st\<lparr>insideBody := \<not> ctInBody st\<rparr>)
                  else
                    (let st1 = st\<lparr>checkedForCt := True\<rparr>;
                         trimmedStrin = trim (joinWith CRLF fromHere)
                     in if startsWith ''Content-Type'' trimmedStrin
                           \<or> startsWith ''Content-type'' trimmedStrin
                        then Continue (st1\<lparr>insideBody := False, ctInBody := True\<rparr>)
                        else Continue st1))
               else if startsWith ''multipart/'' (case ct of None \<Rightarrow> [] | Some v \<Rightarrow> toStr v) then
                 (case getBoundary ct of
                    None \<Rightarrow> Continue st
                  | Some b \<Rightarrow>
                      (if b \<noteq> []
                       then Continue (st\<lparr>findBoundary := b, isMultipart := True, pbody := Multi []\<rparr>)
                       else Continue st))
               else Continue st))"

text \<open>A continuation line, matched with group \<open>g\<close> (source lines 320 to 328).\<close>

definition contLine :: "string \<Rightarrow> pstate \<Rightarrow> pstate ctl" where
  "contLine g st =
     (let k = lastHeaderName st; h = pheaders st
      in if isMultiHeader st then
           (case hget h k of
              Some (Lst xs) \<Rightarrow>
                (if xs = [] then Continue (st\<lparr>pheaders := hset h k (Lst xs)\<rparr>)
                 else Continue (st\<lparr>pheaders := hset h k (Lst (butlast xs @ [last xs @ CRLF @ g]))\<rparr>))
            | _ \<Rightarrow> Throw TypeError)
         else
           (case hget h k of
              None \<Rightarrow> Continue (st\<lparr>pheaders := hset h k (Str (''undefined'' @ CRLF @ g))\<rparr>)
            | Some v \<Rightarrow> Continue (st\<lparr>pheaders := hset h k (Str (toStr v @ CRLF @ g))\<rparr>)))"

text \<open>
  A header line, matched with name \<open>n\<close> and value \<open>v\<close> (source lines 331 to 347). A name
  inherited from \<^verbatim>\<open>Object.prototype\<close> reads as a truthy value that is not a string and
  has no \<^verbatim>\<open>push\<close>.
\<close>

definition headerLine :: "string \<Rightarrow> string \<Rightarrow> pstate \<Rightarrow> pstate ctl" where
  "headerLine n v st0 =
     (let st = st0\<lparr>lastHeaderName := n\<rparr>; h = pheaders st
      in case hget h n of
           None \<Rightarrow>
             (if n \<in> set objectProtoKeys then Throw TypeError
              else Continue (st\<lparr>isMultiHeader := False, pheaders := hset h n (Str v)\<rparr>))
         | Some (Str s) \<Rightarrow>
             (if s \<noteq> [] then Continue (st\<lparr>isMultiHeader := True, pheaders := hset h n (Lst [s, v])\<rparr>)
              else Continue (st\<lparr>isMultiHeader := False, pheaders := hset h n (Str v)\<rparr>))
         | Some (Lst xs) \<Rightarrow>
             Continue (st\<lparr>isMultiHeader := True, pheaders := hset h n (Lst (xs @ [v]))\<rparr>))"

text \<open>A line of the body (source lines 350 to 394).\<close>

definition pushElem :: "belem \<Rightarrow> pstate \<Rightarrow> pstate" where
  "pushElem e st = (case pbody st of Multi es \<Rightarrow> st\<lparr>pbody := Multi (es @ [e])\<rparr> | _ \<Rightarrow> st)"

definition pushLine :: "string \<Rightarrow> pstate \<Rightarrow> pstate ctl" where
  "pushLine line st =
     (case pbody st of
        Multi es \<Rightarrow>
          (if es = [] then Continue st
           else (case last es of
                   Raw d ls \<Rightarrow> Continue (st\<lparr>pbody := Multi (butlast es @ [Raw d (ls @ [line])])\<rparr>)
                 | _ \<Rightarrow> Throw TypeError))
      | _ \<Rightarrow> Continue st)"

definition bodyLine :: "(string list \<Rightarrow> js_error + part) \<Rightarrow> string option \<Rightarrow> string
    \<Rightarrow> string list \<Rightarrow> pstate \<Rightarrow> pstate ctl" where
  "bodyLine c prev line rest st =
     (if isMultipart st then
        (let open = ''--'' @ findBoundary st; close = ''--'' @ findBoundary st @ ''--''
         in if startsWith open line \<and> \<not> startsWith close line then
              (case (if hasLines st then complete c (st\<lparr>insideBoundary := True\<rparr>)
                     else Inr (st\<lparr>insideBoundary := True\<rparr>)) of
                 Inl e \<Rightarrow> Throw e
               | Inr st1 \<Rightarrow>
                   (case reBoundary line of
                      None \<Rightarrow> Throw TypeError
                    | Some g \<Rightarrow> Continue (pushElem (Raw g []) st1)))
            else if insideBoundary st then
              (if hasDelimiter st \<and> prev = Some [] \<and> startsWith close line then
                 (case complete c (st\<lparr>insideBoundary := False\<rparr>) of
                    Inl e \<Rightarrow> Throw e
                  | Inr st1 \<Rightarrow> Continue st1)
               else if hasDelimiter st \<and> startsWith close line then Continue st
               else pushLine line st)
            else Continue st)
      else Break (st\<lparr>pbody := Solid (joinWith CRLF (line # rest))\<rparr>))"

text \<open>One pass through the body of the \<^verbatim>\<open>for\<close> loop, at \<open>line\<close> with \<open>rest\<close> after it.\<close>

definition step :: "(string list \<Rightarrow> js_error + part) \<Rightarrow> (hval option \<Rightarrow> string option)
    \<Rightarrow> options option \<Rightarrow> string option \<Rightarrow> string \<Rightarrow> string list \<Rightarrow> pstate \<Rightarrow> pstate ctl" where
  "step c getBoundary opts prev line rest st =
     (if \<not> insideBody st then
        (if line = [] then blankLine getBoundary opts (line # rest) st
         else (case reCont line of
                 Some g \<Rightarrow> contLine g st
               | None \<Rightarrow>
                   (case reHeader line of
                      Some (n, v) \<Rightarrow> headerLine n v st
                    | None \<Rightarrow> Continue st)))
      else bodyLine c prev line rest st)"

text \<open>The loop, over the lines from index \<open>i\<close> on; \<open>prev\<close> is \<^verbatim>\<open>lines[i - 1]\<close>.\<close>

fun loop :: "(string list \<Rightarrow> js_error + part) \<Rightarrow> (hval option \<Rightarrow> string option)
    \<Rightarrow> options option \<Rightarrow> string option \<Rightarrow> string list \<Rightarrow> pstate \<Rightarrow> js_error + pstate" where
  "loop c getBoundary opts prev [] st = Inr st"
| "loop c getBoundary opts prev (line # rest) st =
     (case step c getBoundary opts prev line rest st of
        Continue st' \<Rightarrow> loop c getBoundary opts (Some line) rest st'
      | Break st' \<Rightarrow> Inr st'
      | Throw e \<Rightarrow> Inl e)"

text \<open>After the loop: the last boundary is completed if it still holds its lines.\<close>

definition finish :: "(string list \<Rightarrow> js_error + part) \<Rightarrow> pstate \<Rightarrow> js_error + part" where
  "finish c st =
     (case (if hasLines st then complete c st else Inr st) of
        Inl e \<Rightarrow> Inl e
      | Inr st' \<Rightarrow> Inr (Part (pheaders st') (pbody st')))"

text \<open>
  The body of \<^verbatim>\<open>parseRecursive\<close>, with the recursive call as the parameter \<open>c\<close>.
\<close>

definition parseWith :: "(string list \<Rightarrow> js_error + part) \<Rightarrow> (hval option \<Rightarrow> string option)
    \<Rightarrow> options option \<Rightarrow> string list \<Rightarrow> nat \<Rightarrow> js_error + part" where
  "parseWith c getBoundary opts lines start =
     (case loop c getBoundary opts
             (if 0 < start \<and> start \<le> length lines then Some (lines ! (start - 1)) else None)
             (drop start lines) initState of
        Inl e \<Rightarrow> Inl e
      | Inr st \<Rightarrow> finish c st)"

text \<open>
  The recursive call is only ever made on the lines collected for a boundary, which
  are fewer than the lines being scanned: this is what makes the recursion end. The
  invariant \<open>shortRaw N k\<close> says so for a state with \<open>k\<close> lines still to scan out of \<open>N\<close>.
\<close>

definition shortRaw :: "nat \<Rightarrow> nat \<Rightarrow> pstate \<Rightarrow> bool" where
  "shortRaw N k st =
     (k \<le> N \<and> (\<forall>d ls. curBoundary st = Some (Raw d ls) \<longrightarrow> length ls + k < N))"

lemma step_cong:
  assumes "\<forall>bl. length bl < N \<longrightarrow> c bl = c' bl" "shortRaw N (Suc (length rest)) st"
  shows "step c gb opts prev line rest st = step c' gb opts prev line rest st"
    and "step c gb opts prev line rest st = Continue st' \<Longrightarrow> shortRaw N (length rest) st'"
    and "step c gb opts prev line rest st = Break st' \<Longrightarrow> shortRaw N 0 st'"
  using assms
  by (auto simp: step_def bodyLine_def blankLine_def contLine_def headerLine_def complete_def
        pushLine_def pushElem_def hasLines_def curBoundary_def shortRaw_def Let_def
      split: if_splits option.splits pbody.splits belem.splits sum.splits hval.splits
        prod.splits)

lemma loop_cong:
  assumes c: "\<forall>bl. length bl < N \<longrightarrow> c bl = c' bl"
  shows "shortRaw N (length rest) st \<Longrightarrow>
    loop c gb opts prev rest st = loop c' gb opts prev rest st
    \<and> (\<forall>st'. loop c gb opts prev rest st = Inr st' \<longrightarrow> shortRaw N 0 st')"
proof (induction rest arbitrary: prev st)
  case Nil
  then show ?case by simp
next
  case (Cons line rest)
  have inv: "shortRaw N (Suc (length rest)) st" using Cons.prems by simp
  have eq: "step c gb opts prev line rest st = step c' gb opts prev line rest st"
    using c inv by (rule step_cong(1))
  show ?case
  proof (cases "step c gb opts prev line rest st")
    case (Continue st1)
    have "shortRaw N (length rest) st1" using c inv Continue by (rule step_cong(2))
    moreover have "step c' gb opts prev line rest st = Continue st1" using eq Continue by simp
    ultimately show ?thesis using Cons.IH [of st1 "Some line"] Continue by simp
  next
    case (Break st1)
    have "shortRaw N 0 st1" using c inv Break by (rule step_cong(3))
    moreover have "step c' gb opts prev line rest st = Break st1" using eq Break by simp
    ultimately show ?thesis using Break by simp
  next
    case (Throw e)
    moreover have "step c' gb opts prev line rest st = Throw e" using eq Throw by simp
    ultimately show ?thesis by simp
  qed
qed

lemma finish_cong:
  assumes "\<forall>bl. length bl < N \<longrightarrow> c bl = c' bl" "shortRaw N 0 st"
  shows "finish c st = finish c' st"
  using assms
  by (auto simp: finish_def complete_def hasLines_def curBoundary_def shortRaw_def
      split: if_splits option.splits pbody.splits belem.splits sum.splits)

lemma parseWith_cong [fundef_cong]:
  assumes "lines = lines'" "start = start'" "gb = gb'" "opts = opts'"
    and "\<And>bl. length bl < length lines' \<Longrightarrow> c bl = c' bl"
  shows "parseWith c gb opts lines start = parseWith c' gb' opts' lines' start'"
proof -
  have i: "shortRaw (length lines') (length (drop start' lines')) initState"
    by (simp add: shortRaw_def curBoundary_def initState_def)
  have c: "\<forall>bl. length bl < length lines' \<longrightarrow> c bl = c' bl" using assms(5) by blast
  from loop_cong [OF c i] finish_cong [OF c] show ?thesis
    unfolding parseWith_def assms(1-4) by (auto split: sum.splits)
qed

text \<open>
  \<^verbatim>\<open>parseRecursive(lines, start, parent, options)\<close>: the result is the populated
  \<^verbatim>\<open>parent\<close>, or the error thrown. \<open>getBoundary\<close> is the helper of that name of the
  module \<^verbatim>\<open>./utils\<close>, taken as a parameter: a function from the Content-Type value to
  the boundary token, or \<^verbatim>\<open>undefined\<close>.
\<close>

function parseRecursive :: "(hval option \<Rightarrow> string option) \<Rightarrow> options option \<Rightarrow> string list
    \<Rightarrow> nat \<Rightarrow> js_error + part" where
  "parseRecursive getBoundary opts lines start =
     parseWith (\<lambda>bl. parseRecursive getBoundary opts bl 0) getBoundary opts lines start"
  by pat_completeness auto
termination
  by (relation "measure (\<lambda>(getBoundary, opts, lines, start). length lines)") auto

declare parseRecursive.simps [simp del]

section \<open>parse\<close>

text \<open>\<^verbatim>\<open>callback && callback(error, result)\<close>, for the function \<open>cb\<close> with its position.\<close>

definition invoke :: "(slot \<times> callback) option \<Rightarrow> js_error option \<Rightarrow> cb_value
    \<Rightarrow> call list \<times> js_error option" where
  "invoke cb error result =
     (case cb of
        None \<Rightarrow> ([], None)
      | Some (sl, f) \<Rightarrow> ([(sl, error, result)], f error result))"

text \<open>The shift of the arguments: a function in the place of the options is the callback.\<close>

definition shifted :: "opt_arg \<Rightarrow> callback option \<Rightarrow> bool" where
  "shifted options callback =
     (case options of
        OptFn f \<Rightarrow> (case callback of None \<Rightarrow> True | Some g \<Rightarrow> False)
      | _ \<Rightarrow> False)"

definition effectiveCallback :: "opt_arg \<Rightarrow> callback option \<Rightarrow> (slot \<times> callback) option" where
  "effectiveCallback options callback =
     (case callback of
        Some g \<Rightarrow> Some (CallbackArg, g)
      | None \<Rightarrow> (case options of OptFn f \<Rightarrow> Some (OptionsArg, f) | _ \<Rightarrow> None))"

text \<open>The options \<^verbatim>\<open>parseRecursive\<close> gets: \<^verbatim>\<open>null\<close>, or an object.\<close>

definition parseOptions :: "opt_arg \<Rightarrow> callback option \<Rightarrow> options option" where
  "parseOptions options callback =
     (if shifted options callback then None
      else (case options of
              OptNull \<Rightarrow> None
            | OptObj ob \<Rightarrow> Some ob
            | _ \<Rightarrow> Some (Options False)))"

definition parse :: "(hval option \<Rightarrow> string option) \<Rightarrow> eml_arg \<Rightarrow> opt_arg \<Rightarrow> callback option
    \<Rightarrow> call list \<times> (js_error + part) outcome" where
  "parse getBoundary eml options callback =
     (let (error, result) =
            (case eml of
               EmlText s \<Rightarrow>
                 (case parseRecursive getBoundary (parseOptions options callback)
                         (splitLines s) 0 of
                    Inl e \<Rightarrow> (Some e, Incomplete)
                  | Inr p \<Rightarrow> (None, Parsed p))
             | _ \<Rightarrow>
                 (Some (Error (''Argument '' @ [CHR 0x22] @ ''eml'' @ [CHR 0x22]
                          @ '' expected to be string!'')), Incomplete));
          ret = (case error of
                   Some e \<Rightarrow> Inl e
                 | None \<Rightarrow> (case result of
                              Parsed p \<Rightarrow> Inr p
                            | _ \<Rightarrow> Inl (Error ''read EML failed!'')));
          (calls, thrown) = invoke (effectiveCallback options callback) error result
      in case thrown of None \<Rightarrow> (calls, Returned ret) | Some e \<Rightarrow> (calls, Raised e))"

section \<open>completeBoundary\<close>

text \<open>
  The headers of \<^verbatim>\<open>completeBoundary\<close> are plain strings, assigned and extended in place.
  An assignment to the key \<^verbatim>\<open>__proto__\<close> of an object does not create a property
  when the value is a string, so that key is never stored.
\<close>

definition hsetOwn :: "hmap \<Rightarrow> string \<Rightarrow> hval \<Rightarrow> hmap" where
  "hsetOwn h k v = (if k = ''__proto__'' then h else hset h k v)"

text \<open>\<^verbatim>\<open>headers[k] += '\r\n' + g\<close>.\<close>

definition happend :: "hmap \<Rightarrow> string \<Rightarrow> string \<Rightarrow> hmap" where
  "happend h k g =
     (case hget h k of
        None \<Rightarrow> hsetOwn h k (Str (''undefined'' @ CRLF @ g))
      | Some v \<Rightarrow> hsetOwn h k (Str (toStr v @ CRLF @ g)))"

text \<open>
  The local variables of \<^verbatim>\<open>completeBoundary\<close> and the part of its result. The child
  boundary is a pair of its delimiter and the lines collected for it. The variable
  \<^verbatim>\<open>lines\<close> is the array \<^verbatim>\<open>boundary.lines\<close> of the argument itself, not a copy: the
  \<^verbatim>\<open>splice\<close> that takes the body out of it shortens the caller's array, and \<open>clines\<close>
  is the content of that array.
\<close>

record cstate =
  cheaders :: hmap
  cbody :: pbody
  clastHeaderName :: string
  cinsideBody :: bool
  childBoundary :: "(string \<times> string list) option"
  clines :: "string list"

definition initCState :: "string list \<Rightarrow> cstate" where
  "initCState lines = \<lparr>cheaders = [], cbody = Unset, clastHeaderName = [], cinsideBody = False,
     childBoundary = None, clines = lines\<rparr>"

text \<open>\<^verbatim>\<open>!!lines[index + 1]\<close> and \<^verbatim>\<open>lines[index + 1] === ''\<close>, on the lines after the current one.\<close>

definition nextTruthy :: "string list \<Rightarrow> bool" where
  "nextTruthy rest = (case rest of [] \<Rightarrow> False | nx # _ \<Rightarrow> nx \<noteq> [])"

definition nextBlank :: "string list \<Rightarrow> bool" where
  "nextBlank rest = (case rest of [] \<Rightarrow> False | nx # _ \<Rightarrow> nx = [])"

text \<open>The child just resolved is stored: pushed, or the first of a new list (source lines 461 to 469).\<close>

definition storeChild :: "belem option \<Rightarrow> string list \<Rightarrow> cstate \<Rightarrow> cstate" where
  "storeChild child ls st =
     (case child of
        Some ch \<Rightarrow>
          (case cbody st of
             Multi es \<Rightarrow> st\<lparr>cbody := Multi (es @ [ch])\<rparr>
           | _ \<Rightarrow> st\<lparr>cbody := Multi [ch]\<rparr>)
      | None \<Rightarrow> st\<lparr>cbody := Solid (joinWith CRLF ls)\<rparr>)"

text \<open>
  \<^verbatim>\<open>'--' + childBoundaryStr\<close>, where \<^verbatim>\<open>childBoundaryStr\<close> is what \<^verbatim>\<open>getBoundary\<close> returns for
  the Content-Type read so far; \<^verbatim>\<open>undefined\<close> concatenates as the word.
\<close>

definition childMarker :: "(hval option \<Rightarrow> string option) \<Rightarrow> cstate \<Rightarrow> string" where
  "childMarker getBoundary st =
     ''--'' @ (case getBoundary (jsOr (hget (cheaders st) ''Content-Type'')
                                     (hget (cheaders st) ''Content-type'')) of
                None \<Rightarrow> ''undefined''
              | Some b \<Rightarrow> b)"

text \<open>
  The rest of the lines is the body, as one string (source lines 485 to 491):
  \<^verbatim>\<open>lines.splice(index)\<close> removes the current line and those after it from the array.
\<close>

definition solidBody :: "string \<Rightarrow> string list \<Rightarrow> cstate \<Rightarrow> cstate ctl" where
  "solidBody line rest st =
     Break (st\<lparr>cbody := Solid (joinWith CRLF (line # rest)),
               clines := take (length (clines st) - Suc (length rest)) (clines st)\<rparr>)"

text \<open>
  The recursive call \<open>c\<close> on the child boundary returns the child and leaves the
  child's array of lines as its own final \<^verbatim>\<open>splice\<close> left it: \<open>linesAfter\<close> is that
  array, which can only have lost lines at its end.
\<close>

definition linesAfter :: "(string \<times> string list \<Rightarrow> belem option \<times> string list) \<Rightarrow> string
    \<Rightarrow> string list \<Rightarrow> string list" where
  "linesAfter c d ls = take (length ls) (snd (c (d, ls)))"

text \<open>A line while a child boundary \<open>(d, ls)\<close> is open (source lines 455 to 484).\<close>

definition childLine :: "(string \<times> string list \<Rightarrow> belem option \<times> string list) \<Rightarrow> string option
    \<Rightarrow> string \<Rightarrow> string list \<Rightarrow> string \<Rightarrow> string list \<Rightarrow> cstate \<Rightarrow> cstate ctl" where
  "childLine c prev line rest d ls st =
     (if prev = Some [] \<and> startsWith (''--'' @ d) line then
        (if nextTruthy rest
         then Continue ((storeChild (fst (c (d, ls))) (linesAfter c d ls) st)
                          \<lparr>childBoundary := Some (d, [])\<rparr>)
         else if startsWith (''--'' @ d @ ''--'') line \<and> nextBlank rest
         then Break ((storeChild (fst (c (d, ls))) (linesAfter c d ls) st)
                       \<lparr>childBoundary := None\<rparr>)
         else Continue ((storeChild (fst (c (d, ls))) (linesAfter c d ls) st)
                          \<lparr>childBoundary := Some (d, linesAfter c d ls @ [line])\<rparr>))
      else Continue (st\<lparr>childBoundary := Some (d, ls @ [line])\<rparr>))"

text \<open>One pass through the loop body of \<^verbatim>\<open>completeBoundary\<close> (source lines 425 to 492).\<close>

definition cstep :: "(string \<times> string list \<Rightarrow> belem option \<times> string list)
    \<Rightarrow> (hval option \<Rightarrow> string option) \<Rightarrow> string option \<Rightarrow> string \<Rightarrow> string list \<Rightarrow> cstate \<Rightarrow> cstate ctl" where
  "cstep c getBoundary prev line rest st =
     (if \<not> cinsideBody st then
        (if line = [] then Continue (st\<lparr>cinsideBody := True\<rparr>)
         else (case reHeader line of
                 Some (n, v) \<Rightarrow>
                   Continue (st\<lparr>clastHeaderName := n, cheaders := hsetOwn (cheaders st) n (Str v)\<rparr>)
               | None \<Rightarrow>
                   (case reCont line of
                      Some g \<Rightarrow> Continue (st\<lparr>cheaders := happend (cheaders st) (clastHeaderName st) g\<rparr>)
                    | None \<Rightarrow> Continue st)))
      else
        (case childBoundary st of
           None \<Rightarrow>
             (case reBoundary line of
                Some g \<Rightarrow>
                  (if startsWith (childMarker getBoundary st) line
                   then Continue (st\<lparr>childBoundary := Some (g, [])\<rparr>)
                   else solidBody line rest st)
              | None \<Rightarrow> solidBody line rest st)
         | Some (d, ls) \<Rightarrow>
             (if d \<noteq> [] then childLine c prev line rest d ls st
              else solidBody line rest st)))"

fun cloop :: "(string \<times> string list \<Rightarrow> belem option \<times> string list)
    \<Rightarrow> (hval option \<Rightarrow> string option) \<Rightarrow> string option \<Rightarrow> string list \<Rightarrow> cstate \<Rightarrow> cstate" where
  "cloop c getBoundary prev [] st = st"
| "cloop c getBoundary prev (line # rest) st =
     (case cstep c getBoundary prev line rest st of
        Continue st' \<Rightarrow> cloop c getBoundary (Some line) rest st'
      | Break st' \<Rightarrow> st'
      | Throw e \<Rightarrow> st)"

text \<open>
  The body of \<^verbatim>\<open>completeBoundary\<close> for a boundary with the delimiter \<open>d\<close> and the array
  \<open>lines\<close>, with the recursive call as the parameter \<open>c\<close>: the result, which is \<^verbatim>\<open>null\<close>
  or the boundary with its part, and the array as the call leaves it.
\<close>

definition completeWith :: "(string \<times> string list \<Rightarrow> belem option \<times> string list)
    \<Rightarrow> (hval option \<Rightarrow> string option) \<Rightarrow> string \<Rightarrow> string list
    \<Rightarrow> belem option \<times> string list" where
  "completeWith c getBoundary d lines =
     (if d = [] then (None, lines)
      else (let st = cloop c getBoundary None lines (initCState lines)
            in (Some (Resolved d (Part (cheaders st) (cbody st))), clines st)))"

definition shortChild :: "nat \<Rightarrow> nat \<Rightarrow> cstate \<Rightarrow> bool" where
  "shortChild N k st =
     (k \<le> N \<and> (\<forall>d ls. childBoundary st = Some (d, ls) \<longrightarrow> length ls + k < N))"

lemma cstep_cong:
  assumes "\<forall>d bl. length bl < N \<longrightarrow> c (d, bl) = c' (d, bl)" "shortChild N (Suc (length rest)) st"
  shows "cstep c gb prev line rest st = cstep c' gb prev line rest st"
    and "cstep c gb prev line rest st = Continue st' \<Longrightarrow> shortChild N (length rest) st'"
  using assms
  by (auto simp: cstep_def childLine_def solidBody_def storeChild_def shortChild_def
        linesAfter_def
      split: if_splits option.splits prod.splits pbody.splits)

lemma cloop_cong:
  assumes c: "\<forall>d bl. length bl < N \<longrightarrow> c (d, bl) = c' (d, bl)"
  shows "shortChild N (length rest) st \<Longrightarrow> cloop c gb prev rest st = cloop c' gb prev rest st"
proof (induction rest arbitrary: prev st)
  case Nil
  then show ?case by simp
next
  case (Cons line rest)
  have inv: "shortChild N (Suc (length rest)) st" using Cons.prems by simp
  have eq: "cstep c gb prev line rest st = cstep c' gb prev line rest st"
    using c inv by (rule cstep_cong(1))
  show ?case
  proof (cases "cstep c gb prev line rest st")
    case (Continue st1)
    have "shortChild N (length rest) st1" using c inv Continue by (rule cstep_cong(2))
    moreover have "cstep c' gb prev line rest st = Continue st1" using eq Continue by simp
    ultimately show ?thesis using Cons.IH [of st1 "Some line"] Continue by simp
  next
    case (Break st1)
    moreover have "cstep c' gb prev line rest st = Break st1" using eq Break by simp
    ultimately show ?thesis by simp
  next
    case (Throw e)
    moreover have "cstep c' gb prev line rest st = Throw e" using eq Throw by simp
    ultimately show ?thesis by simp
  qed
qed

lemma completeWith_cong [fundef_cong]:
  assumes "d = d'" "lines = lines'" "gb = gb'"
    and "\<And>e bl. length bl < length lines' \<Longrightarrow> c (e, bl) = c' (e, bl)"
  shows "completeWith c gb d lines = completeWith c' gb' d' lines'"
proof -
  have i: "shortChild (length lines') (length lines') (initCState lines')"
    by (simp add: shortChild_def initCState_def)
  have c: "\<forall>e bl. length bl < length lines' \<longrightarrow> c (e, bl) = c' (e, bl)" using assms(4) by blast
  from cloop_cong [OF c i] show ?thesis
    unfolding completeWith_def assms(1-3) by simp
qed

text \<open>
  \<^verbatim>\<open>completeBoundary(boundary)\<close>. The argument is \<^verbatim>\<open>null\<close> (\<open>None\<close>), or a record of a
  delimiter and the array of lines, which may be missing (then an empty array stands
  in for it, and the record still has none). The value is the result together with the
  lines of the argument after the call.
\<close>

function completeBoundary :: "(hval option \<Rightarrow> string option)
    \<Rightarrow> (string \<times> string list option) option \<Rightarrow> belem option \<times> string list option" where
  "completeBoundary getBoundary boundary =
     (case boundary of
        None \<Rightarrow> (None, None)
      | Some (d, None) \<Rightarrow>
          (fst (completeWith
                  (\<lambda>(e, bl). case completeBoundary getBoundary (Some (e, Some bl)) of
                                (r, after) \<Rightarrow> (r, case after of None \<Rightarrow> bl | Some l \<Rightarrow> l))
                  getBoundary d []), None)
      | Some (d, Some lines) \<Rightarrow>
          (case completeWith
                  (\<lambda>(e, bl). case completeBoundary getBoundary (Some (e, Some bl)) of
                                (r, after) \<Rightarrow> (r, case after of None \<Rightarrow> bl | Some l \<Rightarrow> l))
                  getBoundary d lines of
             (r, after) \<Rightarrow> (r, Some after)))"
  by pat_completeness auto
termination
  by (relation "measure (\<lambda>(getBoundary, boundary).
        (case boundary of Some (d, Some ls) \<Rightarrow> length ls | _ \<Rightarrow> 0))")
     (auto split: option.splits)

declare completeBoundary.simps [simp del]

text \<open>
  The two recursive equations in the form used for evaluation: unfolded only at an
  argument that is a concrete list.
\<close>

lemma parseRecursive_code [code]:
  "parseRecursive gb opts [] start =
     parseWith (\<lambda>bl. parseRecursive gb opts bl 0) gb opts [] start"
  "parseRecursive gb opts (l # ls) start =
     parseWith (\<lambda>bl. parseRecursive gb opts bl 0) gb opts (l # ls) start"
  by (rule parseRecursive.simps)+

lemma completeBoundary_code [code]:
  "completeBoundary gb None = (None, None)"
  "completeBoundary gb (Some (d, None)) =
     (fst (completeWith
             (\<lambda>(e, bl). case completeBoundary gb (Some (e, Some bl)) of
                           (r, after) \<Rightarrow> (r, case after of None \<Rightarrow> bl | Some l \<Rightarrow> l))
             gb d []), None)"
  "completeBoundary gb (Some (d, Some [])) =
     (case completeWith
             (\<lambda>(e, bl). case completeBoundary gb (Some (e, Some bl)) of
                           (r, after) \<Rightarrow> (r, case after of None \<Rightarrow> bl | Some l \<Rightarrow> l))
             gb d [] of
        (r, after) \<Rightarrow> (r, Some after))"
  "completeBoundary gb (Some (d, Some (l # ls))) =
     (case completeWith
             (\<lambda>(e, bl). case completeBoundary gb (Some (e, Some bl)) of
                           (r, after) \<Rightarrow> (r, case after of None \<Rightarrow> bl | Some l \<Rightarrow> l))
             gb d (l # ls) of
        (r, after) \<Rightarrow> (r, Some after))"
  by (subst completeBoundary.simps, simp)+


section \<open>A stand-in for getBoundary\<close>

text \<open>
  Modelled from the spec: \<^verbatim>\<open>getBoundary\<close> belongs to the module \<^verbatim>\<open>./utils\<close>, which is not
  among the sources; the specification says only that the boundary token is extracted
  from the Content-Type. This stand-in, used where a concrete function is needed to run
  the code on an example, takes the text after \<^verbatim>\<open>boundary=\<close>, without an opening quote,
  up to a quote or a semicolon.
\<close>

fun afterFirst :: "string \<Rightarrow> string \<Rightarrow> string option" where
  "afterFirst p [] = (if p = [] then Some [] else None)"
| "afterFirst p (c # cs) =
     (if startsWith p (c # cs) then Some (drop (length p) (c # cs)) else afterFirst p cs)"

definition getBoundaryModel :: "hval option \<Rightarrow> string option" where
  "getBoundaryModel ct =
     (case ct of
        None \<Rightarrow> None
      | Some v \<Rightarrow>
          (case afterFirst ''boundary='' (toStr v) of
             None \<Rightarrow> None
           | Some r \<Rightarrow>
               Some (takeWhile (\<lambda>c. c \<noteq> CHR 0x22 \<and> c \<noteq> CHR '';'')
                       (if startsWith [CHR 0x22] r then tl r else r))))"

section \<open>Header-value and content decoding\<close>

text \<open>\<^verbatim>\<open>s.replace(/\r?\n/g, '')\<close>.\<close>

fun stripBreaks :: "string \<Rightarrow> string" where
  "stripBreaks [] = []"
| "stripBreaks [c] = (if c = LF then [] else [c])"
| "stripBreaks (c # d # cs) =
     (if c = LF then stripBreaks (d # cs)
      else if c = CR \<and> d = LF then stripBreaks cs
      else c # stripBreaks (d # cs))"

text \<open>
  A regular expression that is not anchored is tried at every position from the left:
  \<open>f\<close> is the match at the start of its argument.
\<close>

fun searchRe :: "(string \<Rightarrow> 'a option) \<Rightarrow> string \<Rightarrow> 'a option" where
  "searchRe f [] = f []"
| "searchRe f (c # cs) = (case f (c # cs) of Some x \<Rightarrow> Some x | None \<Rightarrow> searchRe f cs)"

text \<open>The characters the dot of a regular expression does not match.\<close>

definition isLineTerminator :: "char \<Rightarrow> bool" where
  "isLineTerminator c = (c = LF \<or> c = CR)"

text \<open>ASCII and Latin-1 lower case, for \<^verbatim>\<open>toLowerCase\<close> and the flag \<^verbatim>\<open>i\<close>.\<close>

definition lowerChar :: "char \<Rightarrow> char" where
  "lowerChar c = (let n = (of_char c :: nat) in
     if (65 \<le> n \<and> n \<le> 90) \<or> (192 \<le> n \<and> n \<le> 222 \<and> n \<noteq> 215) then char_of (n + 32) else c)"

definition toLowerCase :: "string \<Rightarrow> string" where
  "toLowerCase s = map lowerChar s"

definition startsWithCI :: "string \<Rightarrow> string \<Rightarrow> bool" where
  "startsWithCI p s = (length p \<le> length s \<and> map lowerChar (take (length p) s) = map lowerChar p)"

text \<open>
  The replacement text of \<^verbatim>\<open>String.prototype.replace\<close> for a match \<open>m\<close> with the text
  \<open>b\<close> before it and \<open>a\<close> after it: \<^verbatim>\<open>$$\<close>, \<^verbatim>\<open>$&\<close>, \<^verbatim>\<open>$`\<close> and \<^verbatim>\<open>$'\<close> are expanded.
\<close>

fun expandDollar :: "string \<Rightarrow> string \<Rightarrow> string \<Rightarrow> string \<Rightarrow> string" where
  "expandDollar m b a [] = []"
| "expandDollar m b a [c] = [c]"
| "expandDollar m b a (c # d # cs) =
     (if c = CHR ''$'' \<and> d = CHR ''$'' then CHR ''$'' # expandDollar m b a cs
      else if c = CHR ''$'' \<and> d = CHR ''&'' then m @ expandDollar m b a cs
      else if c = CHR ''$'' \<and> d = CHR 0x60 then b @ expandDollar m b a cs
      else if c = CHR ''$'' \<and> d = CHR 0x27 then a @ expandDollar m b a cs
      else c # expandDollar m b a (d # cs))"

text \<open>The text before and after the first occurrence of \<open>p\<close>.\<close>

fun splitAtFirst :: "string \<Rightarrow> string \<Rightarrow> (string \<times> string) option" where
  "splitAtFirst p [] = (if p = [] then Some ([], []) else None)"
| "splitAtFirst p (c # cs) =
     (if startsWith p (c # cs) then Some ([], drop (length p) (c # cs))
      else (case splitAtFirst p cs of None \<Rightarrow> None | Some (b, a) \<Rightarrow> Some (c # b, a)))"

text \<open>\<^verbatim>\<open>s.replace(p, r)\<close> for a string \<open>p\<close>: the first occurrence only.\<close>

definition replaceFirst :: "string \<Rightarrow> string \<Rightarrow> string \<Rightarrow> string" where
  "replaceFirst p r s =
     (case splitAtFirst p s of None \<Rightarrow> s | Some (b, a) \<Rightarrow> b @ expandDollar p b a r @ a)"

text \<open>
  \<^verbatim>\<open>/=\?([^?]+)\?(B|Q)\?(.+?)(\?=)/gi\<close> at the start of a string: the character set, the
  letter, the payload and the text after the match. The payload is the shortest run of
  one or more characters, none a line terminator, that \<^verbatim>\<open>?=\<close> follows.
\<close>

fun lazyPayload :: "string \<Rightarrow> (string \<times> string) option" where
  "lazyPayload [] = None"
| "lazyPayload (c # cs) =
     (if isLineTerminator c then None
      else if startsWith ''?='' cs then Some ([c], drop 2 cs)
      else (case lazyPayload cs of None \<Rightarrow> None | Some (p, r) \<Rightarrow> Some (c # p, r)))"

definition reEncodedAt :: "string \<Rightarrow> (string \<times> char \<times> string \<times> string) option" where
  "reEncodedAt s =
     (if startsWith ''=?'' s then
        (let cs = takeWhile (\<lambda>c. c \<noteq> CHR ''?'') (drop 2 s)
         in if cs = [] then None
            else (case drop (2 + length cs) s of
                    q # t # q' # r \<Rightarrow>
                      (if q = CHR ''?'' \<and> (lowerChar t = CHR ''b'' \<or> lowerChar t = CHR ''q'')
                          \<and> q' = CHR ''?''
                       then (case lazyPayload r of
                               None \<Rightarrow> None
                             | Some (p, rest) \<Rightarrow> Some (cs, t, p, rest))
                       else None)
                  | _ \<Rightarrow> None))
      else None)"

lemma lazyPayload_shorter: "lazyPayload s = Some (p, r) \<Longrightarrow> length r < length s"
  by (induction s arbitrary: p r) (auto split: if_splits option.splits)

lemma reEncodedAt_shorter: "reEncodedAt s = Some (cs, t, p, r) \<Longrightarrow> length r < length s"
proof -
  assume a: "reEncodedAt s = Some (cs, t, p, r)"
  then obtain q t' q' r' where d: "drop (2 + length cs) s = q # t' # q' # r'"
    and l: "lazyPayload r' = Some (p, r)"
    by (auto simp: reEncodedAt_def Let_def split: if_splits list.splits option.splits)
  have "length r < length r'" using l by (rule lazyPayload_shorter)
  moreover have "length r' < length s"
    using arg_cong [OF d, of length] by simp
  ultimately show ?thesis by simp
qed

text \<open>\<^verbatim>\<open>str.match(regex)\<close>: the encoded words of a string, from left to right.\<close>

function encodedWords :: "string \<Rightarrow> string list" where
  "encodedWords [] = []"
| "encodedWords (c # cs) =
     (case reEncodedAt (c # cs) of
        None \<Rightarrow> encodedWords cs
      | Some (cset, t, p, r) \<Rightarrow> take (Suc (length cs) - length r) (c # cs) # encodedWords r)"
  by pat_completeness auto
termination
  by (relation "measure length") (auto dest: reEncodedAt_shorter)

text \<open>\<^verbatim>\<open>/[\t ]+$/gm\<close> replaced by nothing: the tabs and spaces before a line end or the end.\<close>

definition stripTrailingBlanks :: "string \<Rightarrow> string" where
  "stripTrailingBlanks s =
     foldr (\<lambda>c acc. if (c = CHR 0x09 \<or> c = CHR 0x20) \<and> (acc = [] \<or> isLineTerminator (hd acc))
                     then acc else c # acc) s []"

text \<open>\<^verbatim>\<open>/=(?:\r?\n|$)/g\<close> replaced by nothing: the soft line breaks.\<close>

fun removeSoftBreaks :: "string \<Rightarrow> string" where
  "removeSoftBreaks [] = []"
| "removeSoftBreaks [c] = (if c = CHR ''='' then [] else [c])"
| "removeSoftBreaks [c, d] =
     (if c = CHR ''='' \<and> d = LF then [] else c # removeSoftBreaks [d])"
| "removeSoftBreaks (c # d # e # cs) =
     (if c = CHR ''='' \<and> d = LF then removeSoftBreaks (e # cs)
      else if c = CHR ''='' \<and> d = CR \<and> e = LF then removeSoftBreaks cs
      else c # removeSoftBreaks (d # e # cs))"

text \<open>\<^verbatim>\<open>s.replace(/_/g, r)\<close>; \<open>pre\<close> is the text before the current position.\<close>

fun replaceUnderscores :: "string \<Rightarrow> string \<Rightarrow> string \<Rightarrow> string" where
  "replaceUnderscores r pre [] = []"
| "replaceUnderscores r pre (c # cs) =
     (if c = CHR ''_'' then expandDollar ''_'' pre cs r @ replaceUnderscores r (pre @ [c]) cs
      else c # replaceUnderscores r (pre @ [c]) cs)"

text \<open>
  A content: \<^verbatim>\<open>undefined\<close>, a string, bytes, or a list of boundary records (the value a
  body can have, and what encoding makes of it).
\<close>

datatype cval = CUndefined | CStr string | CBytes string | CArray "belem list"

text \<open>
  The collaborators, whose code is outside the module: the functions \<^verbatim>\<open>getBoundary\<close> and
  \<^verbatim>\<open>getCharsetName\<close>, \<^verbatim>\<open>mimeDecode\<close> and \<^verbatim>\<open>GB2312UTF8\<close> of \<^verbatim>\<open>./utils\<close>, \<^verbatim>\<open>decode\<close> and
  \<^verbatim>\<open>encode\<close> of \<^verbatim>\<open>./charset\<close>, the Base64 codec, the address parser, and \<^verbatim>\<open>decodeURI\<close>
  of the runtime. Each but \<^verbatim>\<open>getBoundary\<close> returns a value or throws.
\<close>

record ext =
  getBoundary :: "hval option \<Rightarrow> string option"
  getCharsetName :: "string \<Rightarrow> js_error + string"
  decode :: "cval \<Rightarrow> string \<Rightarrow> js_error + string"
  encode :: "string \<Rightarrow> js_error + string"
  GB2312ToUTF8 :: "string \<Rightarrow> js_error + string"
  mimeDecode :: "string \<Rightarrow> string \<Rightarrow> js_error + string"
  base64Decode :: "string \<Rightarrow> js_error + string"
  base64Atob :: "string \<Rightarrow> js_error + string"
  base64Btoa :: "string \<Rightarrow> js_error + string"
  fromBase64 :: "string \<Rightarrow> js_error + string"
  toUint8Array :: "string \<Rightarrow> js_error + string"
  addressparser :: "string \<Rightarrow> js_error + (string \<times> string) list"
  decodeURI :: "string \<Rightarrow> js_error + string"

text \<open>Sequencing of steps that may throw.\<close>

definition bindE :: "js_error + 'a \<Rightarrow> ('a \<Rightarrow> js_error + 'b) \<Rightarrow> js_error + 'b" where
  "bindE m f = (case m of Inl e \<Rightarrow> Inl e | Inr x \<Rightarrow> f x)"

definition defaultCharset :: string where
  "defaultCharset = ''utf-8''"

text \<open>\<^verbatim>\<open>unquotePrintable(value, charset, qEncoding)\<close>.\<close>

definition unquotePrintable :: "ext \<Rightarrow> string \<Rightarrow> string \<Rightarrow> bool \<Rightarrow> js_error + string" where
  "unquotePrintable x val charset qEncoding =
     (let rawString = removeSoftBreaks (stripTrailingBlanks val)
      in if qEncoding
         then bindE (decode x (CBytes [CHR 0x20]) charset)
                (\<lambda>sp. mimeDecode x (replaceUnderscores sp [] rawString) charset)
         else mimeDecode x rawString charset)"

text \<open>\<^verbatim>\<open>decodeJoint(str)\<close>: one encoded word decoded, or the string itself.\<close>

definition decodeJoint :: "ext \<Rightarrow> string \<Rightarrow> js_error + string" where
  "decodeJoint x str =
     (case searchRe reEncodedAt str of
        None \<Rightarrow> Inr str
      | Some (cset, t, payload, r) \<Rightarrow>
          bindE (getCharsetName x cset)
            (\<lambda>charset.
               if lowerChar t = CHR ''b'' then
                 (if charset = ''utf8''
                  then bindE (fromBase64 x (stripBreaks payload))
                         (\<lambda>s. bindE (encode x s) (\<lambda>bs. decode x (CBytes bs) ''utf8''))
                  else bindE (toUint8Array x (stripBreaks payload))
                         (\<lambda>bs. decode x (CBytes bs) charset))
               else unquotePrintable x payload charset True))"

text \<open>
  \<^verbatim>\<open>unquoteString(str)\<close>. The argument is a header value or \<^verbatim>\<open>undefined\<close>; a list has no
  method \<^verbatim>\<open>match\<close>.
\<close>

fun substituteWords :: "ext \<Rightarrow> string list \<Rightarrow> string \<Rightarrow> js_error + string" where
  "substituteWords x [] decodedString = Inr decodedString"
| "substituteWords x (spin # spins) decodedString =
     bindE (decodeJoint x spin)
       (\<lambda>d. substituteWords x spins (replaceFirst spin d decodedString))"

definition unquoteString :: "ext \<Rightarrow> hval option \<Rightarrow> js_error + string" where
  "unquoteString x str =
     (case str of
        Some (Lst xs) \<Rightarrow> Inl TypeError
      | Some (Str s) \<Rightarrow>
          bindE (substituteWords x (encodedWords s) s) (\<lambda>d. Inr (stripBreaks d))
      | None \<Rightarrow> Inr [])"

text \<open>\<^verbatim>\<open>getEmailAddress(rawStr)\<close>.\<close>

definition getEmailAddress :: "ext \<Rightarrow> hval option \<Rightarrow> js_error + address" where
  "getEmailAddress x rawStr =
     bindE (unquoteString x rawStr)
       (\<lambda>raw. bindE (addressparser x raw)
          (\<lambda>list. case list of
                     [] \<Rightarrow> Inr NoAddress
                   | [a] \<Rightarrow> Inr (OneAddress a)
                   | _ \<Rightarrow> Inr (Addresses list)))"

text \<open>
  \<^verbatim>\<open>/charset\s*=\W*([\w\-]+)/g\<close> at the start of a string, and \<^verbatim>\<open>getCharset\<close>, whose
  argument is turned into a string (\<^verbatim>\<open>undefined\<close> into the word).
\<close>

definition reCharsetAt :: "string \<Rightarrow> string option" where
  "reCharsetAt s =
     (if startsWith ''charset'' s then
        (let r = dropWhile isSpace (drop 7 s)
         in if startsWith ''='' r then
              (let r1 = tl r;
                   k = length (takeWhile (\<lambda>c. \<not> isWord c) r1);
                   js = filter (\<lambda>j. takeWhile isNameChar (drop j r1) \<noteq> []) (rev [0..<Suc k])
               in case js of [] \<Rightarrow> None | j # _ \<Rightarrow> Some (takeWhile isNameChar (drop j r1)))
            else None)
      else None)"

definition asString :: "hval option \<Rightarrow> string" where
  "asString v = (case v of None \<Rightarrow> ''undefined'' | Some u \<Rightarrow> toStr u)"

definition getCharset :: "hval option \<Rightarrow> string option" where
  "getCharset contentType = searchRe reCharsetAt (asString contentType)"

text \<open>\<^verbatim>\<open>v.indexOf(p) >= 0\<close> for a header value: a substring of a string, an element of a list.\<close>

definition hvalIndexOf :: "string \<Rightarrow> hval \<Rightarrow> bool" where
  "hvalIndexOf p v = (case v of Str s \<Rightarrow> contains p s | Lst xs \<Rightarrow> p \<in> set xs)"


section \<open>read\<close>

text \<open>Attachment metadata (source lines 589 to 641).\<close>

text \<open>\<^verbatim>\<open>name.replace(/(\s|'|utf-8|\*[0-9]\*)/g, '')\<close>.\<close>

function stripName :: "string \<Rightarrow> string" where
  "stripName [] = []"
| "stripName (c # cs) =
     (if isSpace c \<or> c = CHR 0x27 then stripName cs
      else if startsWith ''utf-8'' (c # cs) then stripName (drop 4 cs)
      else if c = CHR ''*'' \<and> (case cs of d # e # r \<Rightarrow> isDigit d \<and> e = CHR ''*'' | _ \<Rightarrow> False)
      then stripName (drop 2 cs)
      else c # stripName cs)"
  by pat_completeness auto
termination
  by (relation "measure length") auto

text \<open>\<^verbatim>\<open>s.split(c)\<close> for a character \<open>c\<close>.\<close>

fun splitOn :: "char \<Rightarrow> string \<Rightarrow> string list" where
  "splitOn c [] = [[]]"
| "splitOn c (x # xs) =
     (if x = c then [] # splitOn c xs
      else (case splitOn c xs of [] \<Rightarrow> [[x]] | l # ls \<Rightarrow> (x # l) # ls))"

text \<open>
  \<^verbatim>\<open>/name[\*]?="?(.+?)"?$/gi\<close> at the start of a string; the result is group 1: the
  shortest run of one or more characters, none a line terminator, after which only an
  optional quote is left. The opening quote is taken when the rest allows it.
\<close>

definition lazyName :: "string \<Rightarrow> string option" where
  "lazyName r =
     (if r = [] then None
      else (let g = (if 2 \<le> length r \<and> last r = CHR 0x22 then butlast r else r)
            in if list_ex isLineTerminator g then None else Some g))"

definition reNameAt :: "string \<Rightarrow> string option" where
  "reNameAt s =
     (if startsWithCI ''name'' s then
        (let r = (if startsWith ''*'' (drop 4 s) then drop 5 s else drop 4 s)
         in if startsWith ''='' r then
              (if startsWith [CHR 0x22] (tl r) then
                 (case lazyName (drop 2 r) of Some g \<Rightarrow> Some g | None \<Rightarrow> lazyName (tl r))
               else lazyName (tl r))
            else None)
      else None)"

text \<open>The name found in one header value: the groups of its \<^verbatim>\<open>;\<close>-separated pieces, joined.\<close>

definition candidateName :: "string \<Rightarrow> string" where
  "candidateName s =
     concat (map (\<lambda>v. case searchRe reNameAt v of None \<Rightarrow> [] | Some g \<Rightarrow> g)
               (splitOn CHR '';'' (stripName s)))"

text \<open>
  The loop over \<^verbatim>\<open>NameContainer\<close>; \<open>result_name\<close> is the variable of that name. A list
  value has no method \<^verbatim>\<open>replace\<close>.
\<close>

definition NameContainer :: "string list" where
  "NameContainer = [''Content-Disposition'', ''Content-Type'', ''Content-type'']"

fun scanNames :: "hmap \<Rightarrow> string list \<Rightarrow> string option \<Rightarrow> js_error + string option" where
  "scanNames h [] result_name = Inr result_name"
| "scanNames h (key # keys) result_name =
     (case hget h key of
        None \<Rightarrow> scanNames h keys result_name
      | Some (Lst xs) \<Rightarrow> Inl TypeError
      | Some (Str s) \<Rightarrow>
          (if s = [] then scanNames h keys result_name
           else if candidateName s \<noteq> [] then Inr (Some (candidateName s))
           else scanNames h keys (Some (candidateName s))))"

text \<open>\<^verbatim>\<open>s.replace(/^<|>$/g, '')\<close>.\<close>

definition stripBrackets :: "string \<Rightarrow> string" where
  "stripBrackets s =
     (let s1 = (if startsWith ''<'' s then tl s else s)
      in if s1 \<noteq> [] \<and> last s1 = CHR ''>'' then butlast s1 else s1)"

text \<open>\<^verbatim>\<open>/size\s*=\s*([0-9]+)/gi\<close> at the start of a string, and \<^verbatim>\<open>parseInt\<close> of digits.\<close>

definition reSizeAt :: "string \<Rightarrow> string option" where
  "reSizeAt s =
     (if startsWithCI ''size'' s then
        (let r = dropWhile isSpace (drop 4 s)
         in if startsWith ''='' r then
              (let d = takeWhile isDigit (dropWhile isSpace (tl r))
               in if d = [] then None else Some d)
            else None)
      else None)"

text \<open>
  The double nearest to a natural number below \<open>2\<^sup>1\<^sup>0\<^sup>0\<close>, ties going to the even
  mantissa: a number below \<open>2\<^sup>5\<^sup>3\<close> is itself a double, a larger one keeps its 53
  leading bits.
\<close>

definition bitLength :: "nat \<Rightarrow> nat" where
  "bitLength n = length (filter (\<lambda>i. 2 ^ i \<le> n) [0..<100])"

definition roundToDouble :: "nat \<Rightarrow> nat" where
  "roundToDouble n =
     (if n < 2 ^ 53 then n
      else (let e = bitLength n - 53; q = n div 2 ^ e; r = n mod 2 ^ e
            in if 2 ^ (e - 1) < r \<or> (r = 2 ^ (e - 1) \<and> odd q) then (q + 1) * 2 ^ e
               else q * 2 ^ e))"

text \<open>
  \<^verbatim>\<open>parseInt(ds)\<close> for a non-empty run of decimal digits: the double nearest to the
  number written. Past the twentieth significant digit the language lets the engine
  read the further digits as zeros, so the value is the engine's.
\<close>

definition parseInt :: "string \<Rightarrow> jsnum" where
  "parseInt ds =
     (if length (dropWhile (\<lambda>c. c = CHR ''0'') ds) \<le> 20 then Num (roundToDouble (decimal ds))
      else EngineDefined)"

definition emptyAttachment :: attachment where
  "emptyAttachment = \<lparr>aname = None, acontentType = None, acontentId = None, ainline = None,
     asize = None\<rparr>"

text \<open>The attachment record built from the headers of a part.\<close>

definition attachmentOf :: "ext \<Rightarrow> hmap \<Rightarrow> js_error + attachment" where
  "attachmentOf x hs =
     (case jsOr (hget hs ''Content-ID'') (hget hs ''Content-Id'') of
        Some (Lst xs) \<Rightarrow> Inl TypeError
      | contentIdWithBrackets \<Rightarrow>
          (let a1 = (case contentIdWithBrackets of
                       Some (Str s) \<Rightarrow>
                         (if stripBrackets s \<noteq> []
                          then emptyAttachment\<lparr>acontentId := Some (stripBrackets s)\<rparr>
                          else emptyAttachment)
                     | _ \<Rightarrow> emptyAttachment)
           in bindE (scanNames hs NameContainer None)
                (\<lambda>result_name.
                   bindE (case result_name of
                            None \<Rightarrow> Inr a1
                          | Some rn \<Rightarrow>
                              (if rn = [] then Inr a1
                               else bindE (decodeURI x rn) (\<lambda>n. Inr (a1\<lparr>aname := Some n\<rparr>))))
                     (\<lambda>a2.
                        (let ct = jsOr (hget hs ''Content-Type'') (hget hs ''Content-type'');
                             a3 = (if truthy ct then a2\<lparr>acontentType := ct\<rparr> else a2);
                             cd = hget hs ''Content-Disposition''
                         in if truthy cd then
                              Inr (a3\<lparr>ainline := Some (startsWith ''inline''
                                                        (dropWhile isSpace (asString cd))),
                                      asize := Some (case searchRe reSizeAt (asString cd) of
                                                       None \<Rightarrow> parseInt ''0''
                                                     | Some ds \<Rightarrow> parseInt ds)\<rparr>)
                            else Inr a3)))))"

text \<open>The transfer decoding at the head of \<^verbatim>\<open>_append\<close> (source lines 526 to 539).\<close>

definition transferDecode :: "ext \<Rightarrow> hval option \<Rightarrow> hval option \<Rightarrow> string \<Rightarrow> cval
    \<Rightarrow> js_error + cval" where
  "transferDecode x contentType encoding charset content =
     (if encoding = Some (Str ''base64'') then
        (case content of
           CStr s \<Rightarrow>
             (if truthy contentType \<and> hvalIndexOf ''gbk'' (case contentType of Some v \<Rightarrow> v | None \<Rightarrow> Str [])
              then bindE (GB2312ToUTF8 x (stripBreaks s))
                     (\<lambda>u. bindE (encode x u) (\<lambda>bs. Inr (CBytes bs)))
              else bindE (encode x (stripBreaks s)) (\<lambda>bs. Inr (CBytes bs)))
         | _ \<Rightarrow> Inl TypeError)
      else if encoding = Some (Str ''quoted-printable'') then
        (case content of
           CStr s \<Rightarrow> bindE (unquotePrintable x s charset False) (\<lambda>d. Inr (CStr d))
         | _ \<Rightarrow> Inl TypeError)
      else if truthy encoding \<and> charset \<noteq> ''utf8'' then
        (case encoding of
           Some (Str e) \<Rightarrow>
             (if startsWith ''binary'' e \<or> startsWith ''8bit'' e
              then bindE (decode x content charset) (\<lambda>d. Inr (CStr d))
              else Inr content)
         | _ \<Rightarrow> Inl TypeError)
      else Inr content)"

text \<open>\<^verbatim>\<open>typeof content !== 'string'\<close>: what is not a string is decoded to one.\<close>

definition contentString :: "ext \<Rightarrow> string \<Rightarrow> cval \<Rightarrow> js_error + string" where
  "contentString x charset content =
     (case content of CStr s \<Rightarrow> Inr s | _ \<Rightarrow> decode x content charset)"

text \<open>\<^verbatim>\<open>s.replace(/\r\n|(&quot;)/g, '')\<close>.\<close>

function removeCrlfQuot :: "string \<Rightarrow> string" where
  "removeCrlfQuot [] = []"
| "removeCrlfQuot (c # cs) =
     (if startsWith CRLF (c # cs) then removeCrlfQuot (drop 1 cs)
      else if startsWith ''&quot;'' (c # cs) then removeCrlfQuot (drop 5 cs)
      else c # removeCrlfQuot cs)"
  by pat_completeness auto
termination
  by (relation "measure length") auto

text \<open>
  The \<^verbatim>\<open>try\<close> block of the HTML branch (source lines 548 to 556): an error inside it is
  logged and the content stays as it was.
\<close>

definition unwrapHtml :: "ext \<Rightarrow> hval option \<Rightarrow> string \<Rightarrow> string" where
  "unwrapHtml x encoding htmlContent =
     (if encoding = Some (Str ''base64'') then
        (case base64Decode x htmlContent of Inl e \<Rightarrow> htmlContent | Inr d \<Rightarrow> d)
      else
        (case base64Atob x htmlContent of
           Inl e \<Rightarrow> htmlContent
         | Inr a \<Rightarrow>
             (case base64Btoa x a of
                Inl e \<Rightarrow> htmlContent
              | Inr b \<Rightarrow> (if b = htmlContent then a else htmlContent))))"

definition emptyResult :: read_result where
  "emptyResult = \<lparr>rdate = None, rsubject = None, rfrom = None, rto = None, rcc = None,
     rheaders = None, rtext = None, rhtml = None, rtextheaders = None, rhtmlheaders = None,
     rattachments = None, rmultipartAlternative = None, rdata = None\<rparr>"

text \<open>\<^verbatim>\<open>encoding || ''\<close>.\<close>

definition orEmpty :: "hval option \<Rightarrow> hval" where
  "orEmpty v = (case v of None \<Rightarrow> Str [] | Some u \<Rightarrow> (if truthy v then u else Str []))"

text \<open>\<^verbatim>\<open>if (r) r += s else r = s\<close>, for a field \<open>r\<close> of the result.\<close>

definition accumulate :: "string option \<Rightarrow> string \<Rightarrow> string option" where
  "accumulate r s = (case r of None \<Rightarrow> Some s | Some t \<Rightarrow> (if t = [] then Some s else Some (t @ s)))"

text \<open>
  \<^verbatim>\<open>_append(headers, content, result)\<close>; the headers are \<^verbatim>\<open>undefined\<close> where the caller
  read them from a string.
\<close>

definition append' :: "ext \<Rightarrow> hmap option \<Rightarrow> cval \<Rightarrow> read_result \<Rightarrow> js_error + read_result" where
  "append' x headers0 content0 result =
     (case headers0 of
        None \<Rightarrow> Inl TypeError
      | Some hs \<Rightarrow>
          (let contentType = jsOr (hget hs ''Content-Type'') (hget hs ''Content-type'');
               contentDisposition = hget hs ''Content-Disposition''
           in bindE (getCharsetName x (case getCharset contentType of
                                          None \<Rightarrow> defaultCharset | Some cs \<Rightarrow> cs))
                (\<lambda>charset.
                   (let encoding =
                          (case jsOr (hget hs ''Content-Transfer-Encoding'')
                                     (hget hs ''Content-transfer-encoding'') of
                             Some (Str s) \<Rightarrow> Some (Str (toLowerCase s))
                           | e \<Rightarrow> e)
                    in bindE (transferDecode x contentType encoding charset content0)
                         (\<lambda>content.
                            if \<not> truthy contentDisposition \<and> truthy contentType
                               \<and> hvalIndexOf ''text/html'' (case contentType of Some v \<Rightarrow> v | None \<Rightarrow> Str [])
                            then
                              bindE (contentString x charset content)
                                (\<lambda>s. Inr (result\<lparr>
                                     rhtml := accumulate (rhtml result)
                                                (unwrapHtml x encoding (removeCrlfQuot s)),
                                     rhtmlheaders := Some (case contentType of Some v \<Rightarrow> v | None \<Rightarrow> Str [],
                                                           orEmpty encoding)\<rparr>))
                            else if \<not> truthy contentDisposition \<and> truthy contentType
                               \<and> hvalIndexOf ''text/plain'' (case contentType of Some v \<Rightarrow> v | None \<Rightarrow> Str [])
                            then
                              bindE (contentString x charset content)
                                (\<lambda>s. bindE (if encoding = Some (Str ''base64'')
                                             then base64Decode x s else Inr s)
                                   (\<lambda>t. Inr (result\<lparr>
                                        rtext := accumulate (rtext result) t,
                                        rtextheaders := Some (case contentType of Some v \<Rightarrow> v | None \<Rightarrow> Str [],
                                                              orEmpty encoding)\<rparr>)))
                            else
                              bindE (attachmentOf x hs)
                                (\<lambda>a. Inr (result\<lparr>rattachments :=
                                     Some ((case rattachments result of None \<Rightarrow> [] | Some as \<Rightarrow> as)
                                           @ [a])\<rparr>)))))))"

text \<open>A loop whose body may throw.\<close>

fun foldE :: "('a \<Rightarrow> 's \<Rightarrow> js_error + 's) \<Rightarrow> 'a list \<Rightarrow> 's \<Rightarrow> js_error + 's" where
  "foldE f [] s = Inr s"
| "foldE f (a # as) s = (case f a s of Inl e \<Rightarrow> Inl e | Inr s' \<Rightarrow> foldE f as s')"

text \<open>The value of a body as a content.\<close>

fun bodyContent :: "pbody \<Rightarrow> cval" where
  "bodyContent Unset = CUndefined"
| "bodyContent (Solid s) = CStr s"
| "bodyContent (Multi es) = CArray es"

text \<open>
  The three nested loops of \<^verbatim>\<open>_read\<close> (source lines 684 to 731), innermost first:
  the \<^verbatim>\<open>forEach\<close> over an array body two levels down, the loop over the body of a
  nested part, and the loop over the boundaries of the root.
\<close>

fun readBound :: "ext \<Rightarrow> belem \<Rightarrow> read_result \<Rightarrow> js_error + read_result" where
  "readBound x (Resolved d p) result = append' x (Some (headers p)) (bodyContent (body p)) result"
| "readBound x (StrPart d s) result = append' x None CUndefined result"
| "readBound x (Raw d ls) result = Inl TypeError"
| "readBound x (StrElem s) result = Inl TypeError"

fun readSelfBoundary :: "ext \<Rightarrow> belem \<Rightarrow> read_result \<Rightarrow> js_error + read_result" where
  "readSelfBoundary x (StrElem s) result = Inr (result\<lparr>rdata := Some s\<rparr>)"
| "readSelfBoundary x (Raw d ls) result = Inl TypeError"
| "readSelfBoundary x (StrPart d s) result = append' x None CUndefined result"
| "readSelfBoundary x (Resolved d p) result =
     (case body p of
        Multi bs \<Rightarrow> foldE (readBound x) bs result
      | b \<Rightarrow> append' x (Some (headers p)) (bodyContent b) result)"

fun readBoundaryBlock :: "ext \<Rightarrow> belem \<Rightarrow> read_result \<Rightarrow> js_error + read_result" where
  "readBoundaryBlock x (StrElem s) result = Inr result"
| "readBoundaryBlock x (Raw d ls) result = Inr result"
| "readBoundaryBlock x (StrPart d s) result = Inr (result\<lparr>rdata := Some s\<rparr>)"
| "readBoundaryBlock x (Resolved d p) result =
     (case body p of
        Unset \<Rightarrow> Inr result
      | Solid s \<Rightarrow> append' x (Some (headers p)) (CStr s) result
      | Multi es \<Rightarrow>
          (let currentHeadersContentType =
                 jsOr (hget (headers p) ''Content-Type'') (hget (headers p) ''Content-type'')
           in foldE (readSelfBoundary x) es
                (if truthy currentHeadersContentType
                    \<and> hvalIndexOf ''multipart'' (case currentHeadersContentType of Some v \<Rightarrow> v | None \<Rightarrow> Str [])
                    \<and> rmultipartAlternative result = None
                 then result\<lparr>rmultipartAlternative := currentHeadersContentType\<rparr>
                 else result)))"

text \<open>The fields read from the root headers (source lines 653 to 671).\<close>

definition setAddress :: "ext \<Rightarrow> hmap \<Rightarrow> string \<Rightarrow> (address option \<Rightarrow> read_result \<Rightarrow> read_result)
    \<Rightarrow> read_result \<Rightarrow> js_error + read_result" where
  "setAddress x h key upd result =
     (if truthy (hget h key)
      then bindE (getEmailAddress x (hget h key)) (\<lambda>a. Inr (upd (Some a) result))
      else Inr result)"

definition readHeaders :: "ext \<Rightarrow> hmap \<Rightarrow> js_error + read_result" where
  "readHeaders x h =
     (let r1 = (if truthy (hget h ''Date'') then emptyResult\<lparr>rdate := hget h ''Date''\<rparr>
                else emptyResult)
      in bindE (if truthy (hget h ''Subject'')
                then bindE (unquoteString x (hget h ''Subject''))
                       (\<lambda>s. Inr (r1\<lparr>rsubject := Some s\<rparr>))
                else Inr r1)
           (\<lambda>r2. bindE (setAddress x h ''From'' (\<lambda>a r. r\<lparr>rfrom := a\<rparr>) r2)
              (\<lambda>r3. bindE (setAddress x h ''To'' (\<lambda>a r. r\<lparr>rto := a\<rparr>) r3)
                 (\<lambda>r4. bindE (setAddress x h ''CC'' (\<lambda>a r. r\<lparr>rcc := a\<rparr>) r4)
                    (\<lambda>r5. bindE (setAddress x h ''Cc'' (\<lambda>a r. r\<lparr>rcc := a\<rparr>) r5)
                       (\<lambda>r6. Inr (r6\<lparr>rheaders := Some h\<rparr>)))))))"

text \<open>\<^verbatim>\<open>boundary\<close> of \<^verbatim>\<open>_read\<close>: set when the root is multipart with a boundary token.\<close>

definition rootBoundary :: "ext \<Rightarrow> hmap \<Rightarrow> bool" where
  "rootBoundary x h =
     (let ct = jsOr (hget h ''Content-Type'') (hget h ''Content-type'')
      in truthy ct \<and> startsWith ''multipart/'' (asString ct)
         \<and> (case getBoundary x ct of None \<Rightarrow> False | Some b \<Rightarrow> b \<noteq> []))"

text \<open>
  \<^verbatim>\<open>_read(data)\<close>: the result, or the error value it returns, which is the string
  \<^verbatim>\<open>'no data'\<close> or what was thrown and caught.
\<close>

definition read' :: "ext \<Rightarrow> eml_arg \<Rightarrow> js_error + read_result" where
  "read' x data =
     (case data of
        EmlNull \<Rightarrow> Inl (Message ''no data'')
      | EmlText s \<Rightarrow>
          (if s = [] then Inl (Message ''no data'')
           else Inl (Error ''data does't has headers''))
      | EmlTree p \<Rightarrow>
          bindE (readHeaders x (headers p))
            (\<lambda>result.
               case body p of
                 Multi es \<Rightarrow>
                   (if rootBoundary x (headers p) then foldE (readBoundaryBlock x) es result
                    else Inr result)
               | Solid s \<Rightarrow> append' x (Some (headers p)) (CStr s) result
               | Unset \<Rightarrow> Inr result)
      | _ \<Rightarrow> Inl (Error ''data does't has headers''))"

text \<open>
  \<^verbatim>\<open>read(eml, options, callback)\<close>. An error that \<^verbatim>\<open>parse\<close> or \<^verbatim>\<open>_read\<close> returns becomes
  the error of the call.
\<close>

definition finishRead :: "call list \<Rightarrow> (slot \<times> callback) option \<Rightarrow> js_error + read_result
    \<Rightarrow> call list \<times> (js_error + read_result) outcome" where
  "finishRead earlier cb r =
     (let error = (case r of Inl e \<Rightarrow> Some e | Inr v \<Rightarrow> None);
          result = (case r of Inl e \<Rightarrow> Undefined | Inr v \<Rightarrow> Readed v);
          (calls, thrown) = invoke cb error result
      in case thrown of
           None \<Rightarrow> (earlier @ calls, Returned r)
         | Some e \<Rightarrow> (earlier @ calls, Raised e))"

definition read :: "ext \<Rightarrow> eml_arg \<Rightarrow> opt_arg \<Rightarrow> callback option
    \<Rightarrow> call list \<times> (js_error + read_result) outcome" where
  "read x eml options callback =
     (let cb = effectiveCallback options callback;
          options' = (if shifted options callback then OptNull else options)
      in case eml of
           EmlText s \<Rightarrow>
             (case parse (getBoundary x) eml options' None of
                (calls, Raised e) \<Rightarrow> (calls, Raised e)
              | (calls, Returned (Inl e)) \<Rightarrow> finishRead calls cb (Inl e)
              | (calls, Returned (Inr p)) \<Rightarrow> finishRead calls cb (read' x (EmlTree p)))
         | EmlOther \<Rightarrow> finishRead [] cb (Inl (Error ''Missing EML file content!''))
         | _ \<Rightarrow> finishRead [] cb (read' x eml))"


section \<open>Stand-ins for the collaborators\<close>

text \<open>
  Modelled from the spec: the charset service, the Base64 codec, the address parser and
  the helpers of \<^verbatim>\<open>./utils\<close> are not among the sources. The theorems below hold for
  every record of collaborators; where a concrete record is needed to run the code on
  an example, this one is used. It follows the specification on ASCII text: charset
  labels are normalised to lower-case letters and digits, bytes and text of ASCII
  coincide, an address list is split at commas into names and addresses, and
  \<^verbatim>\<open>decodeURI\<close> turns \<^verbatim>\<open>%HH\<close> below 80 hexadecimal into the character (the reserved
  characters excepted) and throws on any other use of the percent sign. The Base64 and
  quoted-printable codecs are not used by the examples and fail when called.
\<close>

definition hexValue :: "char \<Rightarrow> nat option" where
  "hexValue c = (let n = (of_char c :: nat) in
     if 48 \<le> n \<and> n \<le> 57 then Some (n - 48)
     else if 65 \<le> n \<and> n \<le> 70 then Some (n - 55)
     else if 97 \<le> n \<and> n \<le> 102 then Some (n - 87)
     else None)"

fun decodeURIModel :: "string \<Rightarrow> js_error + string" where
  "decodeURIModel [] = Inr []"
| "decodeURIModel (c # cs) =
     (if c = CHR ''%'' then
        (case cs of
           h # l # r \<Rightarrow>
             (case (hexValue h, hexValue l) of
                (Some a, Some b) \<Rightarrow>
                  (if 16 * a + b < 128 then
                     (case decodeURIModel r of
                        Inl e \<Rightarrow> Inl e
                      | Inr t \<Rightarrow>
                          (if char_of (16 * a + b) \<in> set '';/?:@&=+$,#''
                           then Inr (c # h # l # t)
                           else Inr (char_of (16 * a + b) # t)))
                   else Inl URIError)
              | _ \<Rightarrow> Inl URIError)
         | _ \<Rightarrow> Inl URIError)
      else (case decodeURIModel cs of Inl e \<Rightarrow> Inl e | Inr t \<Rightarrow> Inr (c # t)))"

definition unquote :: "string \<Rightarrow> string" where
  "unquote s =
     (if 2 \<le> length s \<and> hd s = CHR 0x22 \<and> last s = CHR 0x22 then butlast (tl s) else s)"

definition addressModel :: "string \<Rightarrow> string \<times> string" where
  "addressModel piece =
     (case splitAtFirst ''<'' piece of
        None \<Rightarrow> ([], trim piece)
      | Some (b, a) \<Rightarrow> (unquote (trim b), takeWhile (\<lambda>c. c \<noteq> CHR ''>'') a))"

definition addressparserModel :: "string \<Rightarrow> js_error + (string \<times> string) list" where
  "addressparserModel s =
     Inr (map addressModel (filter (\<lambda>p. trim p \<noteq> []) (splitOn CHR '','' s)))"

definition getCharsetNameModel :: "string \<Rightarrow> js_error + string" where
  "getCharsetNameModel s = Inr (filter (\<lambda>c. isWord c \<and> c \<noteq> CHR ''_'') (toLowerCase s))"

definition decodeModel :: "cval \<Rightarrow> string \<Rightarrow> js_error + string" where
  "decodeModel c charset =
     (case c of
        CStr s \<Rightarrow> Inr s
      | CBytes s \<Rightarrow> Inr s
      | _ \<Rightarrow> Inl (ExtError ''decode''))"

definition extModel :: ext where
  "extModel = \<lparr>getBoundary = getBoundaryModel,
     getCharsetName = getCharsetNameModel,
     decode = decodeModel,
     encode = Inr,
     GB2312ToUTF8 = Inr,
     mimeDecode = (\<lambda>s charset. Inl (ExtError ''mimeDecode'')),
     base64Decode = (\<lambda>s. Inl (ExtError ''Base64'')),
     base64Atob = (\<lambda>s. Inl (ExtError ''Base64'')),
     base64Btoa = (\<lambda>s. Inl (ExtError ''Base64'')),
     fromBase64 = (\<lambda>s. Inl (ExtError ''Base64'')),
     toUint8Array = (\<lambda>s. Inl (ExtError ''Base64'')),
     addressparser = addressparserModel,
     decodeURI = decodeURIModel\<rparr>"

section \<open>The state of the scan at a line\<close>

text \<open>
  \<open>scanTo c getBoundary opts prev pre suffix st\<close> is the state in which the loop of
  \<^verbatim>\<open>parseRecursive\<close>, started in \<open>st\<close> on the lines \<open>pre @ suffix\<close>, arrives at the first
  line of \<open>suffix\<close>; \<open>None\<close> when it leaves the loop or throws before.
\<close>

fun scanTo :: "(string list \<Rightarrow> js_error + part) \<Rightarrow> (hval option \<Rightarrow> string option)
    \<Rightarrow> options option \<Rightarrow> string option \<Rightarrow> string list \<Rightarrow> string list \<Rightarrow> pstate
    \<Rightarrow> pstate option" where
  "scanTo c gb opts prev [] suffix st = Some st"
| "scanTo c gb opts prev (line # pre) suffix st =
     (case step c gb opts prev line (pre @ suffix) st of
        Continue st' \<Rightarrow> scanTo c gb opts (Some line) pre suffix st'
      | Break st' \<Rightarrow> None
      | Throw e \<Rightarrow> None)"


section \<open>Facts about the regular expressions\<close>

lemma takeWhile_hd:
  assumes "r = [] \<or> \<not> P (hd r)"
  shows "takeWhile P r = []" "dropWhile P r = r"
  using assms by (cases r; auto)+

lemma takeWhile_ws:
  assumes "\<forall>c\<in>set ws. P c" "r = [] \<or> \<not> P (hd r)"
  shows "takeWhile P (ws @ r) = ws" "dropWhile P (ws @ r) = r"
  using assms by (induction ws) (auto simp: takeWhile_hd)

lemma takeWhile_all: "\<forall>c\<in>set r. P c \<Longrightarrow> takeWhile P r = r"
  by (induction r) auto

lemma nameChar_not_space: "isNameChar c \<Longrightarrow> \<not> isSpace c"
  by (auto simp: isNameChar_def isWord_def isSpace_def Let_def)

text \<open>
  A line of blanks followed by a remainder that does not begin with a blank is a
  continuation line; its group is the remainder up to a CR or LF.
\<close>

lemma reCont_shape:
  assumes "ws \<noteq> []" "\<forall>c\<in>set ws. isSpace c" "r \<noteq> []" "\<not> isSpace (hd r)"
  shows "reCont (ws @ r) = Some (takeWhile notCRLF r)"
proof -
  have tw: "takeWhile isSpace (ws @ r) = ws"
    using assms takeWhile_ws(1) [of ws isSpace r] by simp
  have k: "[1..<Suc (length ws)] = [1..<length ws] @ [length ws]"
    using assms(1) by (cases ws) auto
  have n: "notCRLF ((ws @ r) ! length ws)"
    using assms(3,4) by (cases r) (auto simp: notCRLF_def isSpace_def nth_append)
  show ?thesis
    using assms(3) n unfolding reCont_def tw Let_def k by simp
qed

lemma reCont_None:
  assumes "line = [] \<or> \<not> isSpace (hd line)"
  shows "reCont line = None"
  using assms by (cases line) (auto simp: reCont_def)

text \<open>A name, a colon, blanks and a value that does not begin with a blank is a header line.\<close>

lemma reHeader_shape:
  assumes "n \<noteq> []" "\<forall>c\<in>set n. isNameChar c" "\<forall>c\<in>set ws. isSpace c"
    "v = [] \<or> \<not> isSpace (hd v)"
  shows "reHeader (n @ '':'' @ ws @ v) = Some (n, takeWhile notCRLF v)"
proof -
  have c: "\<not> isNameChar CHR '':''" by (simp add: isNameChar_def isWord_def)
  have tw: "takeWhile isNameChar (n @ '':'' @ ws @ v) = n"
    using assms(2) c takeWhile_ws(1) [of n isNameChar "'':'' @ ws @ v"] by simp
  have dw: "dropWhile isSpace (ws @ v) = v"
    using assms(3,4) takeWhile_ws(2) [of ws isSpace v] by simp
  show ?thesis unfolding reHeader_def tw Let_def using assms(1) dw by (simp add: startsWith_def)
qed


section \<open>Folded and repeated headers\<close>

text \<open>
  How the continuation expression reads a line that begins with blanks. The group
  starts at the last position, after at least one blank, that holds a character other
  than CR and LF and has only blanks before it.
\<close>

lemma filter_rev_upt_last:
  "1 \<le> m \<Longrightarrow> m \<le> k \<Longrightarrow> P m \<Longrightarrow> \<forall>j. m < j \<and> j \<le> k \<longrightarrow> \<not> P j
    \<Longrightarrow> filter P (rev [1..<Suc k]) = m # filter P (rev [1..<m])"
proof (induction k)
  case 0
  then show ?case by simp
next
  case (Suc k)
  show ?case
  proof (cases "m = Suc k")
    case True
    then show ?thesis using Suc.prems(3) by simp
  next
    case False
    then have mk: "m \<le> k" using Suc.prems(2) by simp
    have "\<not> P (Suc k)" using Suc.prems(4) mk by auto
    moreover have "filter P (rev [1..<Suc k]) = m # filter P (rev [1..<m])"
      using Suc.IH [OF Suc.prems(1) mk Suc.prems(3)] Suc.prems(4) by simp
    ultimately show ?thesis by simp
  qed
qed

lemma filter_rev_upt_none:
  assumes "\<forall>j. 1 \<le> j \<and> j \<le> k \<longrightarrow> \<not> P j"
  shows "filter P (rev [1..<Suc k]) = []"
  using assms by (auto simp: filter_empty_conv)

lemma reCont_blank_skipped:
  assumes "isSpace b" "\<forall>c\<in>set t. \<not> notCRLF c"
  shows "reCont (b # t) = None"
proof -
  have "\<forall>j. 1 \<le> j \<and> j \<le> length (takeWhile isSpace (b # t))
      \<longrightarrow> \<not> (j < length (b # t) \<and> notCRLF ((b # t) ! j))"
  proof (intro allI impI)
    fix j
    assume j: "1 \<le> j \<and> j \<le> length (takeWhile isSpace (b # t))"
    show "\<not> (j < length (b # t) \<and> notCRLF ((b # t) ! j))"
    proof
      assume a: "j < length (b # t) \<and> notCRLF ((b # t) ! j)"
      then have "(b # t) ! j \<in> set t" using j by (cases j) auto
      then show False using a assms(2) by blast
    qed
  qed
  then have "filter (\<lambda>j. j < length (b # t) \<and> notCRLF ((b # t) ! j))
      (rev [1..<Suc (length (takeWhile isSpace (b # t)))]) = []"
    by (rule filter_rev_upt_none)
  then show ?thesis unfolding reCont_def Let_def by simp
qed

lemma reCont_last_blank:
  assumes "ws \<noteq> []" "\<forall>c\<in>set ws. isSpace c" "isSpace b" "notCRLF b" "\<forall>c\<in>set t. \<not> notCRLF c"
  shows "reCont (ws @ b # t) = Some [b]"
proof -
  let ?line = "ws @ b # t" and ?m = "length ws"
  let ?P = "\<lambda>j. j < length ?line \<and> notCRLF (?line ! j)"
  have sp: "\<forall>c\<in>set t. isSpace c" using assms(5) by (auto simp: notCRLF_def isSpace_def)
  then have "\<forall>c\<in>set ?line. isSpace c" using assms(2,3) by auto
  then have k: "length (takeWhile isSpace ?line) = length ?line" by (simp add: takeWhile_all)
  have m: "1 \<le> ?m" "?m \<le> length ?line" using assms(1) by (cases ws) auto
  have pm: "?P ?m" using assms(4) by simp
  have later: "\<forall>j. ?m < j \<and> j \<le> length ?line \<longrightarrow> \<not> ?P j"
  proof (intro allI impI)
    fix j
    assume j: "?m < j \<and> j \<le> length ?line"
    show "\<not> ?P j"
    proof
      assume a: "?P j"
      then have "j - Suc ?m < length t" using j by auto
      moreover have "?line ! j = t ! (j - Suc ?m)" using j by (simp add: nth_append nth_Cons')
      ultimately have "?line ! j \<in> set t" by simp
      then show False using a assms(5) by blast
    qed
  qed
  have tw: "takeWhile notCRLF (b # t) = [b]"
    using assms(4,5) by (cases t) auto
  show ?thesis
    unfolding reCont_def Let_def k
    using filter_rev_upt_last [of ?m "length ?line" ?P, OF m pm later] tw by simp
qed

text \<open>
  The three forms of a line that begins with a blank: only CR and LF after the first
  blank; blanks ending in one that is not CR or LF, perhaps with CR and LF after it;
  blanks and then a remainder that begins with another character.
\<close>

lemma blank_led_line_cases:
  assumes "line \<noteq> []" "isSpace (hd line)"
  shows "(\<exists>b t. line = b # t \<and> isSpace b \<and> (\<forall>c\<in>set t. \<not> notCRLF c))
       \<or> (\<exists>ws b t. line = ws @ b # t \<and> ws \<noteq> [] \<and> (\<forall>c\<in>set ws. isSpace c) \<and> isSpace b
             \<and> notCRLF b \<and> (\<forall>c\<in>set t. \<not> notCRLF c))
       \<or> (\<exists>ws r. line = ws @ r \<and> ws \<noteq> [] \<and> (\<forall>c\<in>set ws. isSpace c) \<and> r \<noteq> []
             \<and> \<not> isSpace (hd r))"
proof (cases "dropWhile isSpace line = []")
  case False
  let ?ws = "takeWhile isSpace line" and ?r = "dropWhile isSpace line"
  have "line = ?ws @ ?r" by simp
  moreover have "?ws \<noteq> []" using assms by (cases line) auto
  moreover have "\<forall>c\<in>set ?ws. isSpace c" by (auto dest: set_takeWhileD)
  moreover have "\<not> isSpace (hd ?r)" using False by (simp add: hd_dropWhile)
  ultimately show ?thesis using False by blast
next
  case True
  then have all: "\<forall>c\<in>set line. isSpace c" by (simp add: dropWhile_eq_Nil_conv)
  obtain b0 t0 where l: "line = b0 # t0" using assms(1) by (cases line) auto
  show ?thesis
  proof (cases "\<forall>c\<in>set t0. \<not> notCRLF c")
    case True
    then show ?thesis using l all by auto
  next
    case False
    then have "\<exists>c\<in>set (rev t0). notCRLF c" by auto
    then obtain ys b zs where s: "rev t0 = ys @ b # zs" "notCRLF b" "\<forall>c\<in>set ys. \<not> notCRLF c"
      using split_list_first_prop [of "rev t0" notCRLF] by blast
    have "rev (rev t0) = rev (ys @ b # zs)" using s(1) by simp
    then have t0: "t0 = rev zs @ b # rev ys" by simp
    have "line = (b0 # rev zs) @ b # rev ys" using l t0 by simp
    moreover have "\<forall>c\<in>set (b0 # rev zs). isSpace c" using all l t0 by auto
    moreover have "isSpace b" using all l t0 by auto
    moreover have "\<forall>c\<in>set (rev ys). \<not> notCRLF c" using s(3) by simp
    ultimately show ?thesis using s(2) by blast
  qed
qed

text \<open>
  Claim C6, as the code has it. While the parser is in the header section:
  \<^item> a line that is one whitespace character, with at most CR and LF after it, is
    skipped: the state is unchanged;
  \<^item> a line that starts with whitespace and holds a character that can start the
    group appends CR LF and the group \<open>g\<close> to the value of the header seen last, where
    that value is a string, and to the last element, where it is a non-empty list;
    \<open>g\<close> is the line without its leading whitespace, up to a CR or LF and with its
    trailing whitespace, or, for a line of whitespace only, the last of its characters
    that is not CR or LF;
  \<^item> a line \<open>Name: value\<close> whose name has a non-empty string value \<open>s\<close> makes the value
    the list of \<open>s\<close> and the new value, and one whose name has a list value appends the
    new value to the list; the new value is what follows the colon and the whitespace
    after it, up to a CR or LF.
  A name whose present value is the empty string is no part of this statement.
\<close>

theorem header_folding:
  assumes "\<not> insideBody st"
  shows "(\<forall>b t. line = b # t \<and> isSpace b \<and> (\<forall>c\<in>set t. \<not> notCRLF c)
          \<longrightarrow> step c gb opts prev line rest st = Continue st)
       \<and> (\<forall>g. ((\<exists>ws b t. line = ws @ b # t \<and> ws \<noteq> [] \<and> (\<forall>c\<in>set ws. isSpace c) \<and> isSpace b
                    \<and> notCRLF b \<and> (\<forall>c\<in>set t. \<not> notCRLF c) \<and> g = [b])
                \<or> (\<exists>ws r. line = ws @ r \<and> ws \<noteq> [] \<and> (\<forall>c\<in>set ws. isSpace c) \<and> r \<noteq> []
                    \<and> \<not> isSpace (hd r) \<and> g = takeWhile notCRLF r))
          \<longrightarrow> (\<forall>s. \<not> isMultiHeader st \<and> hget (pheaders st) (lastHeaderName st) = Some (Str s)
                 \<longrightarrow> step c gb opts prev line rest st
                     = Continue (st\<lparr>pheaders := hset (pheaders st) (lastHeaderName st)
                                        (Str (s @ CRLF @ g))\<rparr>))
              \<and> (\<forall>xs. isMultiHeader st \<and> hget (pheaders st) (lastHeaderName st) = Some (Lst xs)
                    \<and> xs \<noteq> []
                 \<longrightarrow> step c gb opts prev line rest st
                     = Continue (st\<lparr>pheaders := hset (pheaders st) (lastHeaderName st)
                                        (Lst (butlast xs @ [last xs @ CRLF @ g]))\<rparr>)))
       \<and> (\<forall>n ws v. line = n @ '':'' @ ws @ v \<and> n \<noteq> [] \<and> (\<forall>c\<in>set n. isNameChar c)
            \<and> (\<forall>c\<in>set ws. isSpace c) \<and> (v = [] \<or> \<not> isSpace (hd v))
          \<longrightarrow> (\<forall>s. hget (pheaders st) n = Some (Str s) \<and> s \<noteq> []
                 \<longrightarrow> step c gb opts prev line rest st
                     = Continue (st\<lparr>lastHeaderName := n, isMultiHeader := True,
                                    pheaders := hset (pheaders st) n
                                        (Lst [s, takeWhile notCRLF v])\<rparr>))
              \<and> (\<forall>xs. hget (pheaders st) n = Some (Lst xs)
                 \<longrightarrow> step c gb opts prev line rest st
                     = Continue (st\<lparr>lastHeaderName := n, isMultiHeader := True,
                                    pheaders := hset (pheaders st) n
                                        (Lst (xs @ [takeWhile notCRLF v]))\<rparr>)))"
proof (intro conjI allI impI)
  fix b t
  assume h: "line = b # t \<and> isSpace b \<and> (\<forall>c\<in>set t. \<not> notCRLF c)"
  then have "reCont line = None" by (simp add: reCont_blank_skipped)
  moreover have "reHeader line = None"
    using h nameChar_not_space [of b] by (auto simp: reHeader_def)
  ultimately show "step c gb opts prev line rest st = Continue st"
    using assms h by (simp add: step_def)
next
  fix g s
  assume f: "(\<exists>ws b t. line = ws @ b # t \<and> ws \<noteq> [] \<and> (\<forall>c\<in>set ws. isSpace c) \<and> isSpace b
                    \<and> notCRLF b \<and> (\<forall>c\<in>set t. \<not> notCRLF c) \<and> g = [b])
                \<or> (\<exists>ws r. line = ws @ r \<and> ws \<noteq> [] \<and> (\<forall>c\<in>set ws. isSpace c) \<and> r \<noteq> []
                    \<and> \<not> isSpace (hd r) \<and> g = takeWhile notCRLF r)"
    and v: "\<not> isMultiHeader st \<and> hget (pheaders st) (lastHeaderName st) = Some (Str s)"
  from f have "reCont line = Some g \<and> line \<noteq> []"
    by (auto simp: reCont_last_blank reCont_shape)
  then show "step c gb opts prev line rest st
      = Continue (st\<lparr>pheaders := hset (pheaders st) (lastHeaderName st) (Str (s @ CRLF @ g))\<rparr>)"
    using assms v by (simp add: step_def contLine_def)
next
  fix g xs
  assume f: "(\<exists>ws b t. line = ws @ b # t \<and> ws \<noteq> [] \<and> (\<forall>c\<in>set ws. isSpace c) \<and> isSpace b
                    \<and> notCRLF b \<and> (\<forall>c\<in>set t. \<not> notCRLF c) \<and> g = [b])
                \<or> (\<exists>ws r. line = ws @ r \<and> ws \<noteq> [] \<and> (\<forall>c\<in>set ws. isSpace c) \<and> r \<noteq> []
                    \<and> \<not> isSpace (hd r) \<and> g = takeWhile notCRLF r)"
    and v: "isMultiHeader st \<and> hget (pheaders st) (lastHeaderName st) = Some (Lst xs) \<and> xs \<noteq> []"
  from f have "reCont line = Some g \<and> line \<noteq> []"
    by (auto simp: reCont_last_blank reCont_shape)
  then show "step c gb opts prev line rest st
      = Continue (st\<lparr>pheaders := hset (pheaders st) (lastHeaderName st)
                         (Lst (butlast xs @ [last xs @ CRLF @ g]))\<rparr>)"
    using assms v by (simp add: step_def contLine_def)
next
  fix n ws v s
  assume h: "line = n @ '':'' @ ws @ v \<and> n \<noteq> [] \<and> (\<forall>c\<in>set n. isNameChar c)
            \<and> (\<forall>c\<in>set ws. isSpace c) \<and> (v = [] \<or> \<not> isSpace (hd v))"
    and e: "hget (pheaders st) n = Some (Str s) \<and> s \<noteq> []"
  from h have "reHeader line = Some (n, takeWhile notCRLF v)"
    using reHeader_shape [of n ws v] by simp
  moreover have "line \<noteq> []" using h by simp
  moreover have "\<not> isSpace (hd line)" using h by (cases n) (auto simp: nameChar_not_space)
  then have "reCont line = None" by (simp add: reCont_None)
  ultimately show "step c gb opts prev line rest st
      = Continue (st\<lparr>lastHeaderName := n, isMultiHeader := True,
                     pheaders := hset (pheaders st) n (Lst [s, takeWhile notCRLF v])\<rparr>)"
    using assms e by (simp add: step_def headerLine_def)
next
  fix n ws v xs
  assume h: "line = n @ '':'' @ ws @ v \<and> n \<noteq> [] \<and> (\<forall>c\<in>set n. isNameChar c)
            \<and> (\<forall>c\<in>set ws. isSpace c) \<and> (v = [] \<or> \<not> isSpace (hd v))"
    and e: "hget (pheaders st) n = Some (Lst xs)"
  from h have "reHeader line = Some (n, takeWhile notCRLF v)"
    using reHeader_shape [of n ws v] by simp
  moreover have "line \<noteq> []" using h by simp
  moreover have "\<not> isSpace (hd line)" using h by (cases n) (auto simp: nameChar_not_space)
  then have "reCont line = None" by (simp add: reCont_None)
  ultimately show "step c gb opts prev line rest st
      = Continue (st\<lparr>lastHeaderName := n, isMultiHeader := True,
                     pheaders := hset (pheaders st) n (Lst (xs @ [takeWhile notCRLF v]))\<rparr>)"
    using assms e by (simp add: step_def headerLine_def)
qed

text \<open>
  The theorem at work after the line \<^verbatim>\<open>X: a\<close>: a line of one blank leaves the state as it
  is; the line of two blanks, \<^verbatim>\<open>b\<close> and a blank extends the value by \<^verbatim>\<open>b\<close> and the blank;
  and on the state that leaves a second \<^verbatim>\<open>X: c\<close> makes the list.
\<close>

theorem header_folding_witness:
  "step (\<lambda>bl. Inl TypeError) getBoundaryModel None (Some ''X: a'') '' '' []
      (initState\<lparr>pheaders := [(''X'', Str ''a'')], lastHeaderName := ''X''\<rparr>)
    = Continue (initState\<lparr>pheaders := [(''X'', Str ''a'')], lastHeaderName := ''X''\<rparr>)
   \<and> step (\<lambda>bl. Inl TypeError) getBoundaryModel None (Some '' '') ''  b '' []
      (initState\<lparr>pheaders := [(''X'', Str ''a'')], lastHeaderName := ''X''\<rparr>)
    = Continue (initState\<lparr>pheaders := [(''X'', Str (''a'' @ CRLF @ ''b ''))],
        lastHeaderName := ''X''\<rparr>)
   \<and> step (\<lambda>bl. Inl TypeError) getBoundaryModel None (Some ''  b '') ''X: c'' []
      (initState\<lparr>pheaders := [(''X'', Str (''a'' @ CRLF @ ''b ''))], lastHeaderName := ''X''\<rparr>)
    = Continue (initState\<lparr>pheaders := [(''X'', Lst [''a'' @ CRLF @ ''b '', ''c''])],
        lastHeaderName := ''X'', isMultiHeader := True\<rparr>)"
proof -
  let ?c = "\<lambda>bl :: string list. (Inl TypeError :: js_error + part)"
  let ?s1 = "initState\<lparr>pheaders := [(''X'', Str ''a'')], lastHeaderName := ''X''\<rparr>"
  let ?s2 = "initState\<lparr>pheaders := [(''X'', Str (''a'' @ CRLF @ ''b ''))], lastHeaderName := ''X''\<rparr>"
  have n1: "\<not> insideBody ?s1" and n2: "\<not> insideBody ?s2" by (simp_all add: initState_def)
  have h0: "'' '' = CHR '' '' # [] \<and> isSpace CHR '' '' \<and> (\<forall>c\<in>set []. \<not> notCRLF c)"
    by (simp add: isSpace_def)
  have h1: "(\<exists>ws r. ''  b '' = ws @ r \<and> ws \<noteq> [] \<and> (\<forall>c\<in>set ws. isSpace c) \<and> r \<noteq> []
      \<and> \<not> isSpace (hd r) \<and> ''b '' = takeWhile notCRLF r)"
    by (rule exI [of _ "''  ''"], rule exI [of _ "''b ''"]) (simp add: isSpace_def notCRLF_def)
  have v1: "\<not> isMultiHeader ?s1 \<and> hget (pheaders ?s1) (lastHeaderName ?s1) = Some (Str ''a'')"
    by (simp add: initState_def hget_def)
  have h2: "''X: c'' = ''X'' @ '':'' @ '' '' @ ''c'' \<and> ''X'' \<noteq> [] \<and> (\<forall>c\<in>set ''X''. isNameChar c)
      \<and> (\<forall>c\<in>set '' ''. isSpace c) \<and> (''c'' = [] \<or> \<not> isSpace (hd ''c''))"
    by (simp add: isSpace_def isNameChar_def isWord_def)
  have v2: "hget (pheaders ?s2) ''X'' = Some (Str (''a'' @ CRLF @ ''b '')) \<and> ''a'' @ CRLF @ ''b '' \<noteq> []"
    by (simp add: initState_def hget_def)
  note a = header_folding [OF n1, of "'' ''" ?c getBoundaryModel None "Some ''X: a''" "[]",
      THEN conjunct1, rule_format, OF h0]
  note b0 = header_folding [OF n1, of "''  b ''" ?c getBoundaryModel None "Some '' ''" "[]",
      THEN conjunct2, THEN conjunct1, rule_format, OF disjI2, OF h1]
  note b = b0 [THEN conjunct1, rule_format, OF v1]
  note c0 = header_folding [OF n2, of "''X: c''" ?c getBoundaryModel None "Some ''  b ''" "[]",
      THEN conjunct2, THEN conjunct2, rule_format, OF h2]
  note c = c0 [THEN conjunct1, rule_format, OF v2]
  have e1: "hset (pheaders ?s1) (lastHeaderName ?s1) (Str (''a'' @ CRLF @ ''b ''))
      = [(''X'', Str (''a'' @ CRLF @ ''b ''))]"
    by (simp add: initState_def hset_def hget_def)
  have e2: "hset (pheaders ?s2) ''X'' (Lst [''a'' @ CRLF @ ''b '', takeWhile notCRLF ''c''])
      = [(''X'', Lst [''a'' @ CRLF @ ''b '', ''c''])]"
    by (simp add: initState_def hset_def hget_def notCRLF_def)
  show ?thesis using a b c unfolding e1 e2 by (simp add: initState_def)
qed

text \<open>
  Against the claim as it is worded: the line of a single blank starts with whitespace
  and nothing is appended to \<^verbatim>\<open>X\<close>; and of the line of two blanks, \<^verbatim>\<open>d\<close> and a blank the
  remainder is appended to \<^verbatim>\<open>Y\<close> with its trailing blank, not trimmed.
\<close>

theorem header_folding_counterexample:
  "parseRecursive getBoundaryModel None [''X: a'', '' '', ''Y: c'', ''  d ''] 0
     = Inr (Part [(''X'', Str ''a''), (''Y'', Str (''c'' @ CRLF @ ''d ''))] Unset)"
  by code_simp

text \<open>The whole parser on folded and repeated headers.\<close>

lemma header_folding_example:
  "parseRecursive getBoundaryModel None
       [''X: a'', ''  b'', ''X: c'', ''   d '', ''Y: e'', CHR 0x09 # ''f'', ''   ''] 0
     = Inr (Part [(''X'', Lst [''a'' @ CRLF @ ''b'', ''c'' @ CRLF @ ''d '']),
                  (''Y'', Str (''e'' @ CRLF @ ''f'' @ CRLF @ '' ''))] Unset)"
  by code_simp

text \<open>
  A defect of the code, outside the statement above. The test for a repeated name is
  \<^verbatim>\<open>if (parent.headers[lastHeaderName])\<close>, which the empty string fails: a name whose
  present value is empty is treated by the branch commented \<^verbatim>\<open>Header first appeared here\<close>,
  and its value is replaced, where a name with any other value keeps all its values,
  the empty ones among them.
\<close>

lemma header_empty_value_replaced:
  "parseRecursive getBoundaryModel None [''Y:'', ''Y: b''] 0 = Inr (Part [(''Y'', Str ''b'')] Unset)"
  "parseRecursive getBoundaryModel None [''Y: a'', ''Y:'', ''Y: b''] 0
     = Inr (Part [(''Y'', Lst [''a'', [], ''b''])] Unset)"
  by code_simp+


section \<open>The shape of a body\<close>

text \<open>
  A part is resolved when its body is unset, a string, or a list all of whose elements
  are boundary records with a resolved part: no record still holding raw lines, and no
  string among the records.
\<close>

fun resolved :: "part \<Rightarrow> bool" and resolvedBody :: "pbody \<Rightarrow> bool"
  and resolvedElem :: "belem \<Rightarrow> bool" where
  "resolved (Part h b) = resolvedBody b"
| "resolvedBody Unset = True"
| "resolvedBody (Solid s) = True"
| "resolvedBody (Multi es) = list_all resolvedElem es"
| "resolvedElem (Resolved d p) = resolved p"
| "resolvedElem (Raw d ls) = False"
| "resolvedElem (StrPart d s) = False"
| "resolvedElem (StrElem s) = False"

fun isRaw :: "belem \<Rightarrow> bool" where
  "isRaw (Raw d ls) = True"
| "isRaw (Resolved d p) = False"
| "isRaw (StrPart d s) = False"
| "isRaw (StrElem s) = False"

text \<open>
  During the scan every record but the last is resolved, and the last is resolved or
  still raw (\<open>pending\<close>); after a completion all are resolved (\<open>settled\<close>).
\<close>

definition pending :: "pstate \<Rightarrow> bool" where
  "pending st =
     (case pbody st of
        Multi es \<Rightarrow> list_all resolvedElem (butlast es)
                    \<and> (es = [] \<or> resolvedElem (last es) \<or> isRaw (last es))
      | _ \<Rightarrow> True)"

definition settled :: "pstate \<Rightarrow> bool" where
  "settled st = (case pbody st of Multi es \<Rightarrow> list_all resolvedElem es | _ \<Rightarrow> True)"

lemma list_all_snoc: "list_all P (butlast es) \<Longrightarrow> es \<noteq> [] \<Longrightarrow> P (last es) \<Longrightarrow> list_all P es"
  by (induction es) (auto split: if_splits)

lemma list_all_butlast: "list_all P es \<Longrightarrow> list_all P (butlast es)"
  by (induction es) auto

lemma list_all_last: "list_all P es \<Longrightarrow> es \<noteq> [] \<Longrightarrow> P (last es)"
  by (induction es) auto

lemma settled_pending: "settled st \<Longrightarrow> pending st"
  by (auto simp: settled_def pending_def list_all_butlast list_all_last split: pbody.splits)

lemma pending_settled: "pending st \<Longrightarrow> \<not> hasLines st \<Longrightarrow> settled st"
proof (cases "pbody st")
  case (Multi es)
  assume p: "pending st" and h: "\<not> hasLines st"
  show ?thesis
  proof (cases "es = []")
    case True
    then show ?thesis using Multi by (simp add: settled_def)
  next
    case False
    have "\<not> isRaw (last es)"
      using h Multi False by (cases "last es") (auto simp: hasLines_def curBoundary_def)
    then have "resolvedElem (last es)" "list_all resolvedElem (butlast es)"
      using p Multi False by (auto simp: pending_def)
    then show ?thesis
      using Multi False list_all_snoc [of resolvedElem es] by (simp add: settled_def)
  qed
qed (simp_all add: settled_def)

lemma complete_settled:
  assumes "\<forall>bl p. c bl = Inr p \<longrightarrow> resolved p" "pending st" "complete c st = Inr st'"
  shows "settled st'"
proof -
  from assms(3) obtain es d ls p where
    m: "pbody st = Multi es" "es \<noteq> []" "last es = Raw d ls" "c ls = Inr p"
      "st' = st\<lparr>pbody := Multi (butlast es @ [Resolved d p])\<rparr>"
    by (auto simp: complete_def split: pbody.splits if_splits belem.splits sum.splits)
  have "resolved p" using assms(1) m(4) by blast
  moreover have "list_all resolvedElem (butlast es)" using assms(2) m(1) by (simp add: pending_def)
  ultimately show ?thesis using m(5) by (simp add: settled_def)
qed

lemma pending_upd [simp]:
  "pending (st\<lparr>insideBoundary := b\<rparr>) = pending st"
  "pending (st\<lparr>insideBody := b\<rparr>) = pending st"
  "pending (st\<lparr>checkedForCt := b\<rparr>) = pending st"
  "pending (st\<lparr>ctInBody := b\<rparr>) = pending st"
  "pending (st\<lparr>isMultiHeader := b\<rparr>) = pending st"
  "pending (st\<lparr>isMultipart := b\<rparr>) = pending st"
  "pending (st\<lparr>findBoundary := s\<rparr>) = pending st"
  "pending (st\<lparr>lastHeaderName := s\<rparr>) = pending st"
  "pending (st\<lparr>pheaders := h\<rparr>) = pending st"
  "pending (st\<lparr>pbody := Multi []\<rparr>)"
  "pending (st\<lparr>pbody := Solid t\<rparr>)"
  by (simp_all add: pending_def)

lemma hasLines_upd [simp]: "hasLines (st\<lparr>insideBoundary := b\<rparr>) = hasLines st"
  by (simp add: hasLines_def curBoundary_def)

lemma pushElem_pending: "settled st \<Longrightarrow> pending (pushElem (Raw g []) st)"
  by (auto simp: settled_def pending_def pushElem_def split: pbody.splits)

lemma pushLine_pending: "pending st \<Longrightarrow> pushLine line st = Continue st' \<Longrightarrow> pending st'"
  by (auto simp: pending_def pushLine_def split: pbody.splits if_splits belem.splits)

lemma pushLine_no_break [simp]: "pushLine line st \<noteq> Break st'"
  by (auto simp: pushLine_def split: pbody.splits if_splits belem.splits)

lemma bodyLine_pending:
  assumes c: "\<forall>bl p. c bl = Inr p \<longrightarrow> resolved p" and p: "pending st"
    and r: "bodyLine c prev line rest st = Continue st' \<or> bodyLine c prev line rest st = Break st'"
  shows "pending st'"
proof (cases "isMultipart st")
  case False
  then show ?thesis using r by (auto simp: bodyLine_def)
next
  case mp: True
  let ?open = "''--'' @ findBoundary st" and ?close = "''--'' @ findBoundary st @ ''--''"
  show ?thesis
  proof (cases "startsWith ?open line \<and> \<not> startsWith ?close line")
    case True
    let ?x = "if hasLines st then complete c (st\<lparr>insideBoundary := True\<rparr>)
              else Inr (st\<lparr>insideBoundary := True\<rparr>)"
    from r mp True obtain st1 g where x: "?x = Inr st1" and st': "st' = pushElem (Raw g []) st1"
      by (auto simp: bodyLine_def Let_def split: sum.splits option.splits)
    have "settled st1"
    proof (cases "hasLines st")
      case True
      then show ?thesis
        using x c p complete_settled [of c "st\<lparr>insideBoundary := True\<rparr>" st1] by simp
    next
      case False
      then have "st1 = st\<lparr>insideBoundary := True\<rparr>" using x by simp
      then show ?thesis
        using pending_settled [of "st\<lparr>insideBoundary := True\<rparr>"] p False by simp
    qed
    then show ?thesis using st' pushElem_pending by simp
  next
    case ns: False
    show ?thesis
    proof (cases "insideBoundary st")
      case False
      then show ?thesis using r mp ns p by (auto simp: bodyLine_def Let_def)
    next
      case ib: True
      show ?thesis
      proof (cases "hasDelimiter st \<and> prev = Some [] \<and> startsWith ?close line")
        case True
        then have "complete c (st\<lparr>insideBoundary := False\<rparr>) = Inr st'"
          using r mp ns ib by (auto simp: bodyLine_def Let_def split: sum.splits)
        then show ?thesis
          using c p complete_settled [of c "st\<lparr>insideBoundary := False\<rparr>" st'] settled_pending
          by simp
      next
        case ne: False
        show ?thesis
        proof (cases "hasDelimiter st \<and> startsWith ?close line")
          case True
          then show ?thesis using r mp ns ib ne p by (auto simp: bodyLine_def Let_def)
        next
          case False
          then have "pushLine line st = Continue st'"
            using r mp ns ib ne by (auto simp: bodyLine_def Let_def)
          then show ?thesis using p pushLine_pending by blast
        qed
      qed
    qed
  qed
qed

lemma header_pending:
  assumes "pending st"
  shows "blankLine gb opts fromHere st = Continue st' \<or> blankLine gb opts fromHere st = Break st'
      \<Longrightarrow> pending st'"
    and "contLine g st = Continue st' \<or> contLine g st = Break st' \<Longrightarrow> pending st'"
    and "headerLine n v st = Continue st' \<or> headerLine n v st = Break st' \<Longrightarrow> pending st'"
  using assms
  by (auto simp: blankLine_def contLine_def headerLine_def Let_def
      split: if_splits option.splits hval.splits)

lemma step_pending:
  assumes "\<forall>bl p. c bl = Inr p \<longrightarrow> resolved p" "pending st"
    and r: "step c gb opts prev line rest st = Continue st'
      \<or> step c gb opts prev line rest st = Break st'"
  shows "pending st'"
proof (cases "insideBody st")
  case True
  then show ?thesis
    using assms bodyLine_pending [of c st prev line rest st'] by (simp add: step_def)
next
  case nb: False
  show ?thesis
  proof (cases "line = []")
    case True
    then show ?thesis using nb r header_pending(1) [OF assms(2)] by (simp add: step_def)
  next
    case ne: False
    show ?thesis
    proof (cases "reCont line")
      case (Some g)
      then show ?thesis using nb ne r header_pending(2) [OF assms(2)] by (simp add: step_def)
    next
      case None
      show ?thesis
      proof (cases "reHeader line")
        case (Some nv)
        then show ?thesis
          using nb ne None r header_pending(3) [OF assms(2), of "fst nv" "snd nv" st']
          by (simp add: step_def split: prod.splits)
      next
        case nh: None
        then show ?thesis using nb ne None r assms(2) by (simp add: step_def)
      qed
    qed
  qed
qed

lemma loop_pending:
  assumes c: "\<forall>bl p. c bl = Inr p \<longrightarrow> resolved p"
  shows "pending st \<Longrightarrow> loop c gb opts prev rest st = Inr st' \<Longrightarrow> pending st'"
proof (induction rest arbitrary: prev st)
  case Nil
  then show ?case by simp
next
  case (Cons line rest)
  show ?case
  proof (cases "step c gb opts prev line rest st")
    case (Continue st1)
    then have "pending st1" using c Cons.prems(1) step_pending by blast
    then show ?thesis using Cons.IH [of st1 "Some line"] Cons.prems(2) Continue by simp
  next
    case (Break st1)
    then have "pending st1" using c Cons.prems(1) step_pending by blast
    then show ?thesis using Cons.prems(2) Break by simp
  next
    case (Throw e)
    then show ?thesis using Cons.prems(2) by simp
  qed
qed

lemma finish_resolved:
  assumes "\<forall>bl p. c bl = Inr p \<longrightarrow> resolved p" "pending st" "finish c st = Inr p"
  shows "resolved p"
proof (cases "hasLines st")
  case True
  then obtain st' where "complete c st = Inr st'" "p = Part (pheaders st') (pbody st')"
    using assms(3) by (auto simp: finish_def split: sum.splits)
  then show ?thesis
    using complete_settled [OF assms(1,2)] by (auto simp: settled_def split: pbody.splits)
next
  case False
  then have "p = Part (pheaders st) (pbody st)" using assms(3) by (simp add: finish_def)
  then show ?thesis
    using pending_settled [OF assms(2) False] by (auto simp: settled_def split: pbody.splits)
qed

lemma parseWith_resolved:
  assumes "\<forall>bl p. c bl = Inr p \<longrightarrow> resolved p" "parseWith c gb opts lines start = Inr p"
  shows "resolved p"
proof -
  have i: "pending initState" by (simp add: pending_def initState_def)
  from assms(2) obtain st where
    l: "loop c gb opts (if 0 < start \<and> start \<le> length lines then Some (lines ! (start - 1)) else None)
          (drop start lines) initState = Inr st" and f: "finish c st = Inr p"
    by (auto simp: parseWith_def split: sum.splits)
  from loop_pending [OF assms(1) i l] have "pending st" .
  with assms(1) f show ?thesis using finish_resolved by blast
qed

text \<open>
  The recursion: the parts of the boundaries come from calls on fewer lines, for which
  the property holds already.
\<close>

lemma parseRecursive_resolved:
  "parseRecursive gb opts lines start = Inr p \<Longrightarrow> resolved p"
proof (induction gb opts lines start arbitrary: p rule: parseRecursive.induct)
  case (1 gb opts lines start)
  let ?c = "\<lambda>bl. if length bl < length lines then parseRecursive gb opts bl 0 else Inl TypeError"
  have "parseWith (\<lambda>bl. parseRecursive gb opts bl 0) gb opts lines start
      = parseWith ?c gb opts lines start"
    by (rule parseWith_cong) simp_all
  then have p: "parseWith ?c gb opts lines start = Inr p"
    using "1.prems" by (subst (asm) parseRecursive.simps) simp
  have r: "\<forall>bl q. ?c bl = Inr q \<longrightarrow> resolved q" using "1.IH" by (auto split: if_splits)
  show ?case by (rule parseWith_resolved [where c = ?c, OF r p])
qed

text \<open>
  Claim C7. Whatever the arguments, a tree that \<^verbatim>\<open>parse\<close> returns is resolved: the body
  of the root and of every part below it is unset, one string, or a list of boundary
  records each with its part, never a list that mixes in a string or a record without its
  part.
\<close>

theorem parse_body_never_mixed:
  "parse gb eml options callback = (calls, Returned (Inr p)) \<Longrightarrow> resolved p"
proof -
  assume a: "parse gb eml options callback = (calls, Returned (Inr p))"
  then obtain s where "eml = EmlText s"
    and "parseRecursive gb (parseOptions options callback) (splitLines s) 0 = Inr p"
    by (auto simp: parse_def Let_def split: eml_arg.splits sum.splits option.splits prod.splits)
  then show ?thesis using parseRecursive_resolved by blast
qed

text \<open>A message of two parts inside an outer part, and its tree.\<close>

definition nestedMessage :: string where
  "nestedMessage = joinWith CRLF [''Content-Type: multipart/mixed; boundary=B'', '''',
     ''--B'', ''Content-Type: multipart/alternative; boundary=C'', '''',
     ''--C'', ''X: 1'', '''', ''t'', '''', ''--C'', ''Y: 2'', '''', ''u'', '''', ''--C--'', '''',
     ''--B--'', '''']"

definition nestedTree :: part where
  "nestedTree =
     Part [(''Content-Type'', Str ''multipart/mixed; boundary=B'')]
       (Multi [Resolved ''B''
         (Part [(''Content-Type'', Str ''multipart/alternative; boundary=C'')]
           (Multi [Resolved ''C'' (Part [(''X'', Str ''1'')] (Solid (''t'' @ CRLF))),
                   Resolved ''C'' (Part [(''Y'', Str ''2'')] (Solid (''u'' @ CRLF)))]))])"

lemma parse_nestedMessage:
  "parse getBoundaryModel (EmlText nestedMessage) OptUndefined None
     = ([], Returned (Inr nestedTree))"
  by code_simp

theorem parse_body_never_mixed_witness:
  "parse getBoundaryModel (EmlText nestedMessage) OptUndefined None
     = ([], Returned (Inr nestedTree)) \<and> resolved nestedTree"
  using parse_body_never_mixed [OF parse_nestedMessage] parse_nestedMessage by simp


end
